theory Spec2Isabelle
  imports Complex_Main "HOL-Library.Sublist"
begin

section \<open>Data model of the adaptive interview orchestrator\<close>

text \<open>
  The orchestrator of \<^verbatim>\<open>orchestrator.py\<close> keeps its state in attributes holding
  dictionaries and lists decoded from JSON. Each dictionary becomes a record with one
  field per key the orchestrator reads or writes; a key that may be absent (read with
  \<^verbatim>\<open>.get\<close> or with \<^verbatim>\<open>d[key]\<close>, which raises KeyError) is an option. A timestamp
  stands for one reading of \<^verbatim>\<open>datetime.now()\<close>. The texts of questions, answers and
  interviewer messages are opaque strings; a text that the JSON parser scans is a
  \<open>py_str\<close>, the list of the code points of a Python \<^verbatim>\<open>str\<close>.
\<close>

type_synonym timestamp = nat

type_synonym py_str = "nat list"

definition codepoints :: "string \<Rightarrow> py_str" where
  "codepoints s = map of_char s"

datatype py_exception =
    KeyError string | IndexError | TypeError | ValueError | AttributeError
  | OverflowError | RecursionError

text \<open>
  The value under the key \<^verbatim>\<open>score\<close> of an evaluation, as \<^verbatim>\<open>json.loads\<close> decodes it: a
  Python integer (\<^verbatim>\<open>true\<close> and \<^verbatim>\<open>false\<close> are the integers 1 and 0 in every operation
  used here), or a value that is no number (\<^verbatim>\<open>null\<close>, a string, a list, an object),
  for which \<^verbatim>\<open>score >= 80\<close>, \<^verbatim>\<open>sum\<close> and \<^verbatim>\<open>max(...) - min(...)\<close> raise TypeError.
  Scores with a fraction or an exponent, which decode to floats, are outside this model.
\<close>

datatype score_value = IntScore int | NonNumber

record dataset_info =
  generated_successfully :: bool
  html_table :: string
  ds_metadata :: string

record question =
  question_id :: "string option"
  q_question :: string
  q_skill_target :: "string option"
  q_difficulty :: "string option"
  requires_dataset :: bool
  q_dataset_info :: "dataset_info option"
  adaptive_reasoning :: "string option"

record evaluation =
  ev_score :: "score_value option"
  ev_grade :: "string option"
  ev_justification :: "string option"
  follow_up_needed :: bool
  follow_up_suggestion :: "string option"

record assessment_record =
  question_index :: nat
  ar_question :: question
  ar_candidate_answer :: string
  ar_evaluation :: evaluation
  ar_timestamp :: timestamp
  excel_skill :: "string option"

record trajectory_entry =
  te_skill :: string
  te_score :: score_value
  te_difficulty :: string
  te_timestamp :: timestamp

record performance_entry =
  pe_score :: score_value
  pe_grade :: string
  pe_question_difficulty :: string
  pe_timestamp :: timestamp

record candidate_profile =
  strengths :: "string list"
  weaknesses :: "string list"
  skill_trajectory :: "trajectory_entry list"
  preferred_difficulty :: string
  areas_needing_focus :: "string list"
  role_context :: "string option"
  initial_difficulty :: "string option"
  focus_areas :: "string list option"

record candidate_data =
  cd_name :: string
  role_type :: string
  difficulty_level :: string
  excel_focus_areas :: "string list"
  max_questions :: int
  include_datasets :: bool

record final_decision =
  fd_decision :: "string option"
  fd_overall_score :: "int option"
  fd_recommendation_summary :: "string option"

record start_metadata =
  md_candidate :: string
  md_role_context :: string
  md_start_time :: timestamp
  md_max_questions :: int
  md_data_generation_enabled :: bool

record end_metadata =
  md_end_time :: timestamp
  md_duration :: int
  md_questions_completed :: nat
  md_final_decision :: final_decision
  md_adaptive_trajectory_decisions :: nat
  md_candidate_profile_final :: candidate_profile

record interview_metadata =
  md_start :: "start_metadata option"
  md_end :: "end_metadata option"

record trajectory_decision =
  td_timestamp :: timestamp
  td_reasoning :: string
  td_trajectory :: string
  td_questions_generated :: nat

datatype chat_entry =
    InterviewStartChat timestamp string
  | AdaptiveQuestionChat timestamp string string question bool
  | AdaptiveResponseChat timestamp string string "string option" bool

datatype lifecycle = NotStarted | InProgress | Completed

record orchestrator =
  interview_state :: lifecycle
  current_questions :: "question list"
  current_question_index :: nat
  chat_history :: "chat_entry list"
  assessment_results :: "assessment_record list"
  candidate_data :: "candidate_data option"
  interview_metadata :: interview_metadata
  excel_skills_tested :: "string set"
  excel_performance_by_skill :: "string \<rightharpoonup> performance_entry list"
  candidate_profile :: candidate_profile
  trajectory_decisions :: "trajectory_decision list"
  start_time :: "timestamp option"
  end_time :: "timestamp option"

text \<open>The state built by \<^verbatim>\<open>InterviewOrchestrator.__init__\<close>.\<close>

definition init_orchestrator :: orchestrator where
  "init_orchestrator =
     \<lparr>interview_state = NotStarted,
      current_questions = [],
      current_question_index = 0,
      chat_history = [],
      assessment_results = [],
      candidate_data = None,
      interview_metadata = \<lparr>md_start = None, md_end = None\<rparr>,
      excel_skills_tested = {},
      excel_performance_by_skill = Map.empty,
      candidate_profile =
        \<lparr>strengths = [], weaknesses = [], skill_trajectory = [],
         preferred_difficulty = ''Medium'', areas_needing_focus = [],
         role_context = None, initial_difficulty = None, focus_areas = None\<rparr>,
      trajectory_decisions = [],
      start_time = None,
      end_time = None\<rparr>"

section \<open>Candidate profile update\<close>

text \<open>
  \<^verbatim>\<open>xs[-k:]\<close> keeps the last \<open>k\<close> elements, or all of them when there are fewer.
\<close>

definition last_n :: "nat \<Rightarrow> 'a list \<Rightarrow> 'a list" where
  "last_n k xs = drop (length xs - k) xs"

text \<open>The integers of a list of scores; \<open>None\<close> when one of them is no number.\<close>

definition ints_of :: "score_value list \<Rightarrow> int list option" where
  "ints_of ss = those (map (\<lambda>s. case s of IntScore n \<Rightarrow> Some n | NonNumber \<Rightarrow> None) ss)"

text \<open>
  The true division of two Python integers rounds the exact quotient to the nearest
  double and raises OverflowError when that is beyond the largest one, that is, when the
  magnitude of the quotient is at least \<open>2 ^ 1024 - 2 ^ 970\<close>.
\<close>

definition float_overflow :: "rat \<Rightarrow> bool" where
  "float_overflow x = (\<bar>x\<bar> \<ge> 2 ^ 1024 - 2 ^ 970)"

text \<open>
  \<^verbatim>\<open>sum(recent_scores) / len(recent_scores)\<close> on a non-empty list: \<^verbatim>\<open>sum\<close> raises TypeError
  on a score that is no number, and the division raises OverflowError. The quotient
  returned is the exact rational: Python rounds it to a double, which for at most three
  integers does not change its comparison with 85 or 70.
\<close>

definition avg_recent :: "score_value list \<Rightarrow> py_exception + rat" where
  "avg_recent recent_scores =
     (case ints_of recent_scores of
        None \<Rightarrow> Inl TypeError
      | Some ns \<Rightarrow>
          (let a = of_int (sum_list ns) / of_nat (length ns)
           in if float_overflow a then Inl OverflowError else Inr a))"

definition difficulty_for :: "rat \<Rightarrow> string" where
  "difficulty_for a = (if a \<ge> 85 then ''Hard'' else if a \<ge> 70 then ''Medium'' else ''Easy'')"

definition skill_of :: "question \<Rightarrow> string" where
  "skill_of q = (case q_skill_target q of Some s \<Rightarrow> s | None \<Rightarrow> ''Unknown'')"

definition score_of :: "evaluation \<Rightarrow> score_value" where
  "score_of ev = (case ev_score ev of Some s \<Rightarrow> s | None \<Rightarrow> IntScore 0)"

definition grade_of :: "evaluation \<Rightarrow> string" where
  "grade_of ev = (case ev_grade ev of Some g \<Rightarrow> g | None \<Rightarrow> [])"

definition difficulty_of :: "question \<Rightarrow> string" where
  "difficulty_of q = (case q_difficulty q of Some d \<Rightarrow> d | None \<Rightarrow> [])"

text \<open>
  \<^verbatim>\<open>_update_candidate_profile(question, evaluation, answer)\<close>, with the clock reading
  passed in. The statements are kept in the order of the source. The method has no
  handler: an exception leaves it with the attributes as the statements before it have
  set them. The result is the exception raised, if any, and the state.
\<close>

definition update_candidate_profile ::
  "question \<Rightarrow> evaluation \<Rightarrow> string \<Rightarrow> timestamp \<Rightarrow> orchestrator \<Rightarrow>
     py_exception option \<times> orchestrator" where
  "update_candidate_profile q ev answer now st =
     (let skill = skill_of q;
          score = score_of ev;
          grade = grade_of ev;
          perf = excel_performance_by_skill st;
          earlier = (case perf skill of None \<Rightarrow> [] | Some es \<Rightarrow> es);
          perf' = perf(skill \<mapsto> earlier @
                    [\<lparr>pe_score = score, pe_grade = grade,
                      pe_question_difficulty = difficulty_of q, pe_timestamp = now\<rparr>]);
          p = candidate_profile st;
          traj = skill_trajectory p @
                    [\<lparr>te_skill = skill, te_score = score,
                      te_difficulty = difficulty_of q, te_timestamp = now\<rparr>];
          p1 = p\<lparr>skill_trajectory := traj\<rparr>;
          st1 = st\<lparr>excel_performance_by_skill := perf', candidate_profile := p1\<rparr>
      in case score of
           NonNumber \<Rightarrow> (Some TypeError, st1)
         | IntScore n \<Rightarrow>
             (let str' = (if n \<ge> 80 then
                            (if skill \<notin> set (strengths p) then strengths p @ [skill]
                             else strengths p)
                          else strengths p);
                  weak' = (if n \<ge> 80 then weaknesses p
                           else if n < 60 then
                             (if skill \<notin> set (weaknesses p) then weaknesses p @ [skill]
                              else weaknesses p)
                           else weaknesses p);
                  focus' = (if n \<ge> 80 then areas_needing_focus p
                            else if n < 60 then
                              (if skill \<notin> set (areas_needing_focus p)
                               then areas_needing_focus p @ [skill] else areas_needing_focus p)
                            else areas_needing_focus p);
                  p2 = p1\<lparr>strengths := str', weaknesses := weak',
                          areas_needing_focus := focus'\<rparr>;
                  st2 = st1\<lparr>candidate_profile := p2\<rparr>;
                  recent_scores = map te_score (last_n 3 traj)
              in if recent_scores = [] then (None, st2)
                 else case avg_recent recent_scores of
                        Inl x \<Rightarrow> (Some x, st2)
                      | Inr a \<Rightarrow>
                          (None, st2\<lparr>candidate_profile :=
                                       p2\<lparr>preferred_difficulty := difficulty_for a\<rparr>\<rparr>)))"

section \<open>Continue-or-stop policy\<close>

text \<open>
  \<^verbatim>\<open>[r["evaluation"]["score"] for r in results]\<close> raises KeyError at the first record
  whose evaluation has no score.
\<close>

definition scores_of :: "assessment_record list \<Rightarrow> py_exception + score_value list" where
  "scores_of rs = (case those (map (\<lambda>r. ev_score (ar_evaluation r)) rs) of
                     None \<Rightarrow> Inl (KeyError ''score'') | Some ss \<Rightarrow> Inr ss)"

text \<open>
  \<^verbatim>\<open>max(xs) - min(xs)\<close>: \<^verbatim>\<open>max\<close> raises ValueError on an empty list; with a score that is
  no number the comparison or the subtraction raises TypeError.
\<close>

definition score_variance :: "score_value list \<Rightarrow> py_exception + int" where
  "score_variance xs =
     (if xs = [] then Inl ValueError
      else case ints_of xs of
        None \<Rightarrow> Inl TypeError
      | Some [] \<Rightarrow> Inl ValueError
      | Some (n # ns) \<Rightarrow> Inr (fold max ns n - fold min ns n))"

definition skill_coverage_check :: "orchestrator \<Rightarrow> bool \<times> string" where
  "skill_coverage_check st =
     (if card (excel_skills_tested st) \<ge> 5 then (False, ''Adequate skill coverage achieved'')
      else (True, ''Continue adaptive assessment''))"

text \<open>
  \<^verbatim>\<open>_should_continue_adaptive_assessment\<close>: the pair is the \<^verbatim>\<open>continue\<close> flag and the
  reason; an exception raised on the way is the left summand.
\<close>

definition should_continue_adaptive_assessment ::
  "orchestrator \<Rightarrow> py_exception + (bool \<times> string)" where
  "should_continue_adaptive_assessment st =
     (let n = length (assessment_results st) in
      if n < 4 then Inr (True, ''Need minimum assessment coverage'')
      else if int n \<ge> (case candidate_data st of None \<Rightarrow> 10 | Some cd \<Rightarrow> max_questions cd)
        then Inr (False, ''Reached maximum question limit'')
      else if n \<ge> 6 then
        (case scores_of (last_n 4 (assessment_results st)) of
           Inl e \<Rightarrow> Inl e
         | Inr recent_scores \<Rightarrow>
             (case score_variance recent_scores of
                Inl e \<Rightarrow> Inl e
              | Inr v \<Rightarrow> if v < 15 then Inr (False, ''Performance level established'')
                         else Inr (skill_coverage_check st)))
      else Inr (skill_coverage_check st))"

section \<open>Extracting JSON from generated text\<close>

text \<open>
  \<^verbatim>\<open>JSONParser.parse_json_response\<close> of \<^verbatim>\<open>utils/json_parser.py\<close>. The library function
  \<^verbatim>\<open>json.loads\<close> is a parameter \<open>loads\<close> with three outcomes: the decoded value, the
  JSONDecodeError the parser catches, and any other exception (ValueError for an integer
  literal beyond the digit limit, RecursionError for very deep nesting), which it does
  not catch. The two regular expressions are modelled by scanners that return what
  \<^verbatim>\<open>re.search\<close> and \<^verbatim>\<open>re.findall\<close> return for them.
\<close>

datatype 'j loaded = Decoded 'j | DecodeError | LoadRaised py_exception

text \<open>The characters the patterns name: the backquote, the braces, and \<^verbatim>\<open>json\<close>.\<close>

abbreviation backquote :: nat where "backquote \<equiv> 96"
abbreviation lbrace :: nat where "lbrace \<equiv> 123"
abbreviation rbrace :: nat where "rbrace \<equiv> 125"
abbreviation fence :: py_str where "fence \<equiv> [backquote, backquote, backquote]"
abbreviation json_tag :: py_str where "json_tag \<equiv> [106, 115, 111, 110]"

text \<open>
  The class \<^verbatim>\<open>\s\<close> of a str pattern: the code points for which \<^verbatim>\<open>str.isspace\<close> holds.
\<close>

definition is_space :: "nat \<Rightarrow> bool" where
  "is_space c = (c \<in> {0x09, 0x0A, 0x0B, 0x0C, 0x0D, 0x1C, 0x1D, 0x1E, 0x1F, 0x20, 0x85, 0xA0,
                       0x1680, 0x2028, 0x2029, 0x202F, 0x205F, 0x3000}
                 \<or> (0x2000 \<le> c \<and> c \<le> 0x200A))"

fun strip_prefix :: "py_str \<Rightarrow> py_str \<Rightarrow> py_str option" where
  "strip_prefix [] s = Some s"
| "strip_prefix (p # ps) [] = None"
| "strip_prefix (p # ps) (c # cs) = (if p = c then strip_prefix ps cs else None)"

text \<open>
  \<^verbatim>\<open>\s*```\<close> at the head of \<open>s\<close>: a backquote is no space, so the greedy \<^verbatim>\<open>\s*\<close> has to
  take every leading space.
\<close>

definition closing_fence :: "py_str \<Rightarrow> bool" where
  "closing_fence s = (strip_prefix fence (dropWhile is_space s) \<noteq> None)"

text \<open>
  \<^verbatim>\<open>.*?\}\<close> followed by the closing fence, under DOTALL: the lazy star stops at the
  first closing brace after which the fence follows. \<open>acc\<close> holds, reversed, what the
  group has taken so far.
\<close>

fun lazy_body :: "py_str \<Rightarrow> py_str \<Rightarrow> py_str option" where
  "lazy_body acc [] = None"
| "lazy_body acc (c # cs) =
     (if c = rbrace \<and> closing_fence cs then Some (rev (c # acc))
      else lazy_body (c # acc) cs)"

text \<open>
  The pattern \<^verbatim>\<open>```(?:json)?\s*(\{.*?\})\s*```\<close> anchored at the head of \<open>s\<close>; the result is
  group 1. After the opening fence the optional \<^verbatim>\<open>json\<close> is taken when it is there (the
  letter j is neither a space nor a brace, so backtracking over it cannot succeed).
\<close>

definition match_fence_here :: "py_str \<Rightarrow> py_str option" where
  "match_fence_here s =
     (case strip_prefix fence s of
        None \<Rightarrow> None
      | Some r1 \<Rightarrow>
          (let r2 = (case strip_prefix json_tag r1 of Some r \<Rightarrow> r | None \<Rightarrow> r1) in
           case dropWhile is_space r2 of
             [] \<Rightarrow> None
           | c # body \<Rightarrow> if c = lbrace then lazy_body [c] body else None))"

text \<open>\<^verbatim>\<open>re.search\<close>: the leftmost position at which the pattern matches.\<close>

fun search_fence :: "py_str \<Rightarrow> py_str option" where
  "search_fence [] = None"
| "search_fence (c # cs) =
     (case match_fence_here (c # cs) of Some g \<Rightarrow> Some g | None \<Rightarrow> search_fence cs)"

text \<open>
  The pattern \<^verbatim>\<open>\{(?:[^{}]|{(?:[^{}]|{[^{}]*})*})*\}\<close> after its opening brace: \<open>d\<close> is the
  number of braces open. The pattern has three levels of braces and no more, so a fourth
  opening brace fails the match at this start; so does the end of the text.
\<close>

fun match_braces :: "nat \<Rightarrow> py_str \<Rightarrow> py_str \<Rightarrow> py_str option" where
  "match_braces d acc [] = None"
| "match_braces d acc (c # cs) =
     (if c = lbrace then (if d \<ge> 3 then None else match_braces (Suc d) (c # acc) cs)
      else if c = rbrace then
        (if d \<le> 1 then Some (rev (c # acc)) else match_braces (d - 1) (c # acc) cs)
      else match_braces d (c # acc) cs)"

definition match_braces_here :: "py_str \<Rightarrow> py_str option" where
  "match_braces_here s =
     (case s of [] \<Rightarrow> None
      | c # cs \<Rightarrow> if c = lbrace then match_braces 1 [c] cs else None)"

text \<open>
  \<^verbatim>\<open>re.findall\<close>: the matches from left to right, each search resuming where the
  previous match ended.
\<close>

fun findall_braces :: "py_str \<Rightarrow> py_str list" where
  "findall_braces [] = []"
| "findall_braces (c # cs) =
     (case match_braces_here (c # cs) of
        None \<Rightarrow> findall_braces cs
      | Some m \<Rightarrow> m # findall_braces (drop (length m - 1) cs))"

text \<open>
  The loop over the matches: it returns at the first one that \<open>loads\<close> decodes, goes on
  after a decode error, and is left by any other exception.
\<close>

fun first_loaded :: "(py_str \<Rightarrow> 'j loaded) \<Rightarrow> py_str list \<Rightarrow> 'j loaded" where
  "first_loaded loads [] = DecodeError"
| "first_loaded loads (m # ms) =
     (case loads m of
        Decoded d \<Rightarrow> Decoded d
      | DecodeError \<Rightarrow> first_loaded loads ms
      | LoadRaised x \<Rightarrow> LoadRaised x)"

datatype parse_error = EmptyResponse | CouldNotParse py_str

text \<open>
  The result of the parser: the dictionary with \<^verbatim>\<open>success\<close> true and the data, the
  dictionary with \<^verbatim>\<open>success\<close> false, or an exception that leaves the function.
\<close>

datatype 'j parsed = Parsed 'j | ParseFailed parse_error | ParseRaised py_exception

definition parse_json_response :: "(py_str \<Rightarrow> 'j loaded) \<Rightarrow> py_str \<Rightarrow> 'j parsed" where
  "parse_json_response loads response_text =
     (if response_text = [] then ParseFailed EmptyResponse
      else case loads response_text of
        Decoded d \<Rightarrow> Parsed d
      | LoadRaised x \<Rightarrow> ParseRaised x
      | DecodeError \<Rightarrow>
          (case (case search_fence response_text of
                   None \<Rightarrow> DecodeError
                 | Some g \<Rightarrow> loads g) of
             Decoded d \<Rightarrow> Parsed d
           | LoadRaised x \<Rightarrow> ParseRaised x
           | DecodeError \<Rightarrow>
               (case first_loaded loads (findall_braces response_text) of
                  Decoded d \<Rightarrow> Parsed d
                | LoadRaised x \<Rightarrow> ParseRaised x
                | DecodeError \<Rightarrow> ParseFailed (CouldNotParse response_text))))"

section \<open>The collaborators\<close>

text \<open>
  The language model behind the four agents, the dataset generator and the clock are
  outside the program. One value of \<open>env\<close> holds what they answer during one call of
  the orchestrator: the text each agent's \<^verbatim>\<open>generate_response\<close> returns (\<open>None\<close> when
  it reports failure), what \<^verbatim>\<open>json.loads\<close> makes of a text at each of its three uses,
  the dataset generated for a question (\<open>None\<close> when the generator fails or raises), and
  the clock reading, which every \<^verbatim>\<open>datetime.now()\<close> of the call returns. A decoded
  document is a dictionary, read into the record of its use, or some other JSON value.
  In the dictionary of generated questions the value under \<^verbatim>\<open>questions\<close> is a list of
  dictionaries, or a value on which the loop over it raises (it cannot be iterated, or
  an element has no method \<^verbatim>\<open>get\<close>).
\<close>

datatype 'a json_doc = JDict 'a | JOther

datatype questions_value = Questions "question list" | Unusable py_exception

record generation_payload =
  gp_questions :: questions_value
  gp_reasoning :: string
  gp_trajectory_decision :: string

record env =
  clock :: timestamp
  quecraft_reply :: "py_str option"
  reviewer_reply :: "py_str option"
  recruiter_reply :: "py_str option"
  loads_questions :: "py_str \<Rightarrow> generation_payload json_doc loaded"
  loads_evaluation :: "py_str \<Rightarrow> evaluation json_doc loaded"
  loads_decision :: "py_str \<Rightarrow> final_decision json_doc loaded"
  dataset_for :: "question \<Rightarrow> (string \<times> string) option"
  welcome_reply :: "string option"
  present_reply :: "question \<Rightarrow> string option"
  acknowledge_reply :: "string option"
  clarify_reply :: "string option"
  conclude_reply :: "string option"

text \<open>The calls made to the agents, in the order in which they are made.\<close>

datatype agent_call =
    QueCraftGenerate
  | ReviewerEvaluate question string
  | RecruiterDecide
  | InterviewerWelcome
  | InterviewerPresent question
  | InterviewerAcknowledge
  | InterviewerClarify
  | InterviewerConclude

datatype 'a agent_result = AgentRaised py_exception | AgentFailed | AgentOk 'a

text \<open>
  \<^verbatim>\<open>ReviewerAgent.evaluate_response\<close>: a failed generation and an unparseable reply are
  returned as failures; an exception that leaves the parser leaves the method, and the
  item assignment on a decoded value that is no dictionary raises TypeError. Its prompt
  is built from the texts of the question and the answer without serialising them.
\<close>

definition evaluate_response :: "env \<Rightarrow> evaluation agent_result" where
  "evaluate_response e =
     (case reviewer_reply e of
        None \<Rightarrow> AgentFailed
      | Some text \<Rightarrow>
          (case parse_json_response (loads_evaluation e) text of
             ParseRaised x \<Rightarrow> AgentRaised x
           | ParseFailed _ \<Rightarrow> AgentFailed
           | Parsed JOther \<Rightarrow> AgentRaised TypeError
           | Parsed (JDict ev) \<Rightarrow> AgentOk ev))"

text \<open>
  A question carries a dataset when the generator succeeded for it. The metadata of a
  generated dataset (\<^verbatim>\<open>_get_dataset_metadata\<close> of \<^verbatim>\<open>utils/mock_data_generator.py\<close>) holds
  \<^verbatim>\<open>df.isnull().sum().sum() > 0\<close>, a numpy boolean, which \<^verbatim>\<open>json.dumps\<close> refuses with
  TypeError; every other value the orchestrator stores in a record is a string, an
  integer, a Python boolean or a value decoded from JSON. So \<^verbatim>\<open>json.dumps\<close> of a list of
  assessment records raises exactly when the question of one of them carries a dataset.
\<close>

definition has_dataset :: "question \<Rightarrow> bool" where
  "has_dataset q = (case q_dataset_info q of None \<Rightarrow> False | Some d \<Rightarrow> generated_successfully d)"

definition dumps_raises :: "assessment_record list \<Rightarrow> bool" where
  "dumps_raises rs = list_ex (\<lambda>r. has_dataset (ar_question r)) rs"

text \<open>
  \<^verbatim>\<open>RecruiterAgent.make_final_decision\<close>. Its prompt holds \<^verbatim>\<open>json.dumps\<close> of the interview
  metadata, of the performance metrics, of the evaluation history and of the adaptive
  context; of these only the history can fail to serialise, and it does so before the
  language model is called. From there on the method has the shape of the reviewer's.
\<close>

definition make_final_decision :: "env \<Rightarrow> assessment_record list \<Rightarrow> final_decision agent_result" where
  "make_final_decision e evaluation_history =
     (if dumps_raises evaluation_history then AgentRaised TypeError
      else case recruiter_reply e of
        None \<Rightarrow> AgentFailed
      | Some text \<Rightarrow>
          (case parse_json_response (loads_decision e) text of
             ParseRaised x \<Rightarrow> AgentRaised x
           | ParseFailed _ \<Rightarrow> AgentFailed
           | Parsed JOther \<Rightarrow> AgentRaised TypeError
           | Parsed (JDict d) \<Rightarrow> AgentOk d))"

section \<open>Question generation\<close>

text \<open>\<^verbatim>\<open>_enhance_question_with_data\<close>: a failing generator leaves a failure marker.\<close>

definition enhance_question_with_data :: "env \<Rightarrow> question \<Rightarrow> question" where
  "enhance_question_with_data e q =
     (if \<not> requires_dataset q then q
      else case dataset_for e q of
        Some (html, meta) \<Rightarrow>
          q\<lparr>q_dataset_info := Some \<lparr>generated_successfully = True, html_table = html,
                                    ds_metadata = meta\<rparr>\<rparr>
      | None \<Rightarrow>
          q\<lparr>q_dataset_info := Some \<lparr>generated_successfully = False, html_table = [],
                                    ds_metadata = []\<rparr>\<rparr>)"

datatype generation_error = GenerateCallFailed | GenerateParseFailed | GenerateRaised py_exception

record generated_batch =
  gb_questions :: "question list"
  gb_reasoning :: string
  gb_trajectory_decision :: string

text \<open>
  \<^verbatim>\<open>_generate_next_questions\<close>: every exception is caught and returned as a failure.
  Reading \<^verbatim>\<open>candidate_data["role_type"]\<close> raises first; then the prompt is built with
  \<^verbatim>\<open>json.dumps\<close> of the candidate profile and of the last three assessment records,
  which raises when one of these carries a dataset. Both happen before the question
  writer is called. After the call, an exception that leaves the parser, \<^verbatim>\<open>.get\<close> on a
  decoded value that is no dictionary and the loop over unusable questions raise. A
  payload without the key \<^verbatim>\<open>questions\<close> has the empty list.
\<close>

definition generate_next_questions ::
  "env \<Rightarrow> orchestrator \<Rightarrow> (generation_error + generated_batch) \<times> agent_call list" where
  "generate_next_questions e st =
     (case candidate_data st of
        None \<Rightarrow> (Inl (GenerateRaised (KeyError ''role_type'')), [])
      | Some cd \<Rightarrow>
          if dumps_raises (last_n 3 (assessment_results st))
          then (Inl (GenerateRaised TypeError), [])
          else
            (case quecraft_reply e of
               None \<Rightarrow> (Inl GenerateCallFailed, [QueCraftGenerate])
             | Some text \<Rightarrow>
                 (case parse_json_response (loads_questions e) text of
                    ParseRaised x \<Rightarrow> (Inl (GenerateRaised x), [QueCraftGenerate])
                  | ParseFailed _ \<Rightarrow> (Inl GenerateParseFailed, [QueCraftGenerate])
                  | Parsed JOther \<Rightarrow> (Inl (GenerateRaised AttributeError), [QueCraftGenerate])
                  | Parsed (JDict gp) \<Rightarrow>
                      (case gp_questions gp of
                         Unusable x \<Rightarrow> (Inl (GenerateRaised x), [QueCraftGenerate])
                       | Questions questions \<Rightarrow>
                           (Inr \<lparr>gb_questions = map (enhance_question_with_data e) questions,
                                 gb_reasoning = gp_reasoning gp,
                                 gb_trajectory_decision = gp_trajectory_decision gp\<rparr>,
                            [QueCraftGenerate])))))"

section \<open>Results of the orchestrator's operations\<close>

datatype error =
    InterviewNotInProgress
  | NoCurrentQuestionAvailable
  | FailedToGenerateInitialQuestions generation_error
  | FailedToStartInterview
  | FailedToPresentFirstQuestion
  | FailedToEvaluateResponse
  | FailedToPresentNextQuestion
  | Raised py_exception

text \<open>
  The dictionaries the operations return: a failure, a failure of the completion (it
  carries \<^verbatim>\<open>interview_complete\<close>), the start, a follow-up (acknowledgment and
  clarification question), the next question (acknowledgment, question, presentation,
  evaluation) and the completion (acknowledgment, conclusion, final decision).
\<close>

datatype outcome =
    Failure error
  | CompletionFailure py_exception
  | InterviewStarted question string
  | FollowUp "string option" string
  | NextQuestion string question string evaluation
  | InterviewComplete string string final_decision

section \<open>Completion\<close>

definition fallback_decision :: final_decision where
  "fallback_decision =
     \<lparr>fd_decision = Some ''Requires Manual Review'',
      fd_overall_score = Some 0,
      fd_recommendation_summary = Some ''Unable to generate adaptive assessment decision.''\<rparr>"

text \<open>
  \<^verbatim>\<open>_complete_adaptive_assessment\<close>. The state and the end time are set first; an
  exception from there on is caught and returned with \<^verbatim>\<open>interview_complete\<close>. The
  duration subtracts the start time, which raises TypeError while it is unset. The
  summary in the returned dictionary (counts, skills, trend) is not part of the outcome
  here; its trend forms the mean of the last three trajectory scores, which the profile
  update of the same call has formed before it without raising.
\<close>

definition complete_adaptive_assessment ::
  "env \<Rightarrow> orchestrator \<Rightarrow> string \<Rightarrow> string \<Rightarrow> outcome \<times> orchestrator \<times> agent_call list" where
  "complete_adaptive_assessment e st acknowledgment reason =
     (let st1 = st\<lparr>interview_state := Completed, end_time := Some (clock e)\<rparr> in
      case make_final_decision e (assessment_results st1) of
        AgentRaised x \<Rightarrow> (CompletionFailure x, st1, [RecruiterDecide])
      | r \<Rightarrow>
          (let final = (case r of AgentOk d \<Rightarrow> d | _ \<Rightarrow> fallback_decision);
               conclusion_message =
                 (case conclude_reply e of
                    Some m \<Rightarrow> m
                  | None \<Rightarrow> ''Thank you for completing the adaptive Excel assessment!'')
           in case start_time st1 of
                None \<Rightarrow> (CompletionFailure TypeError, st1, [RecruiterDecide, InterviewerConclude])
              | Some t0 \<Rightarrow>
                  (InterviewComplete acknowledgment conclusion_message final,
                   st1\<lparr>interview_metadata := (interview_metadata st1)
                         \<lparr>md_end := Some
                            \<lparr>md_end_time = clock e,
                             md_duration = int (clock e) - int t0,
                             md_questions_completed = length (assessment_results st1),
                             md_final_decision = final,
                             md_adaptive_trajectory_decisions = length (trajectory_decisions st1),
                             md_candidate_profile_final = candidate_profile st1\<rparr>\<rparr>\<rparr>,
                   [RecruiterDecide, InterviewerConclude])))"

section \<open>Starting the interview\<close>

record start_args =
  sa_candidate_name :: string
  sa_role_type :: string
  sa_difficulty_level :: string
  sa_excel_focus_areas :: "string list option"
  sa_max_questions :: int
  sa_include_datasets :: bool

text \<open>
  The assignments with which \<^verbatim>\<open>start_interview\<close> begins, before it asks for questions:
  candidate data, the context fields of the profile, the metadata and the start time.
\<close>

definition session_setup :: "env \<Rightarrow> start_args \<Rightarrow> orchestrator \<Rightarrow> orchestrator" where
  "session_setup e a st =
     (let areas = (case sa_excel_focus_areas a of None \<Rightarrow> [] | Some fs \<Rightarrow> fs)
      in st\<lparr>candidate_data := Some
               \<lparr>cd_name = sa_candidate_name a, role_type = sa_role_type a,
                difficulty_level = sa_difficulty_level a, excel_focus_areas = areas,
                max_questions = sa_max_questions a,
                include_datasets = sa_include_datasets a\<rparr>,
             candidate_profile := (candidate_profile st)
               \<lparr>role_context := Some (sa_role_type a),
                initial_difficulty := Some (sa_difficulty_level a),
                focus_areas := Some areas,
                preferred_difficulty := ''Medium''\<rparr>,
             interview_metadata :=
               \<lparr>md_start = Some
                  \<lparr>md_candidate = sa_candidate_name a, md_role_context = sa_role_type a,
                   md_start_time = clock e, md_max_questions = sa_max_questions a,
                   md_data_generation_enabled = sa_include_datasets a\<rparr>,
                md_end = None\<rparr>,
             start_time := Some (clock e)\<rparr>)"

text \<open>
  \<^verbatim>\<open>start_interview\<close>. Each return carries the state as the statements before it have
  left it. The source does not look at \<^verbatim>\<open>interview_state\<close> before it starts, and it
  assigns the generated questions to the batch.
\<close>

definition start_interview ::
  "env \<Rightarrow> start_args \<Rightarrow> orchestrator \<Rightarrow> outcome \<times> orchestrator \<times> agent_call list" where
  "start_interview e a st =
     (let st1 = session_setup e a st
      in case generate_next_questions e st1 of
        (Inl err, calls) \<Rightarrow> (Failure (FailedToGenerateInitialQuestions err), st1, calls)
      | (Inr gb, calls) \<Rightarrow>
          (let st2 = st1\<lparr>current_questions := gb_questions gb\<rparr> in
           case welcome_reply e of
             None \<Rightarrow> (Failure FailedToStartInterview, st2, calls @ [InterviewerWelcome])
           | Some welcome_message \<Rightarrow>
               (case current_questions st2 of
                  [] \<Rightarrow> (Failure (Raised IndexError), st2, calls @ [InterviewerWelcome])
                | q0 # _ \<Rightarrow>
                    (case present_reply e q0 of
                       None \<Rightarrow> (Failure FailedToPresentFirstQuestion, st2,
                                 calls @ [InterviewerWelcome, InterviewerPresent q0])
                     | Some presentation \<Rightarrow>
                         (let st3 = st2\<lparr>interview_state := InProgress,
                                        current_question_index := 0,
                                        excel_skills_tested :=
                                          insert (skill_of q0) (excel_skills_tested st2),
                                        chat_history := chat_history st2 @
                                          [InterviewStartChat (clock e) welcome_message]\<rparr>
                          in case question_id q0 of
                               None \<Rightarrow> (Failure (Raised (KeyError ''question_id'')), st3,
                                         calls @ [InterviewerWelcome, InterviewerPresent q0])
                             | Some qid \<Rightarrow>
                                 (InterviewStarted q0 presentation,
                                  st3\<lparr>chat_history := chat_history st3 @
                                        [AdaptiveQuestionChat (clock e) qid presentation q0
                                           (has_dataset q0)]\<rparr>,
                                  calls @ [InterviewerWelcome, InterviewerPresent q0]))))))"

section \<open>Processing a response\<close>

text \<open>
  The last part of \<^verbatim>\<open>process_response\<close>, from the comment ``Present next question'' on:
  \<open>calls\<close> are the calls made before it.
\<close>

definition present_next_question ::
  "env \<Rightarrow> orchestrator \<Rightarrow> string \<Rightarrow> evaluation \<Rightarrow> agent_call list \<Rightarrow>
     outcome \<times> orchestrator \<times> agent_call list" where
  "present_next_question e st acknowledgment ev calls =
     (if current_question_index st \<ge> length (current_questions st)
      then (Failure (Raised IndexError), st, calls)
      else
        (let next_question = current_questions st ! current_question_index st in
         case present_reply e next_question of
           None \<Rightarrow> (Failure FailedToPresentNextQuestion, st,
                     calls @ [InterviewerPresent next_question])
         | Some presentation \<Rightarrow>
             (let st1 = st\<lparr>excel_skills_tested :=
                             insert (skill_of next_question) (excel_skills_tested st)\<rparr>
              in case question_id next_question of
                   None \<Rightarrow> (Failure (Raised (KeyError ''question_id'')), st1,
                             calls @ [InterviewerPresent next_question])
                 | Some qid \<Rightarrow>
                     (NextQuestion acknowledgment next_question presentation ev,
                      st1\<lparr>chat_history := chat_history st1 @
                            [AdaptiveQuestionChat (clock e) qid presentation next_question
                               (has_dataset next_question)]\<rparr>,
                      calls @ [InterviewerPresent next_question]))))"

text \<open>
  The part of \<^verbatim>\<open>process_response\<close> from the comment ``Move to next question or generate
  new ones'' on, entered when the decision is to continue: the cursor moves, the batch is
  extended when the cursor has reached its end, and the next question is presented. A
  failed generation completes the assessment. The response analysis handed to the
  generation forms the same mean as the profile update before it and does not raise.
\<close>

definition move_to_next_question ::
  "env \<Rightarrow> orchestrator \<Rightarrow> string \<Rightarrow> evaluation \<Rightarrow> agent_call list \<Rightarrow>
     outcome \<times> orchestrator \<times> agent_call list" where
  "move_to_next_question e st acknowledgment ev calls =
     (let st4 = st\<lparr>current_question_index := current_question_index st + 1\<rparr> in
      if current_question_index st4 \<ge> length (current_questions st4) then
        (case generate_next_questions e st4 of
           (Inr gb, cs) \<Rightarrow>
             present_next_question e
               (st4\<lparr>current_questions := current_questions st4 @ gb_questions gb,
                    trajectory_decisions := trajectory_decisions st4 @
                      [\<lparr>td_timestamp = clock e,
                        td_reasoning = gb_reasoning gb,
                        td_trajectory = gb_trajectory_decision gb,
                        td_questions_generated = length (gb_questions gb)\<rparr>]\<rparr>)
               acknowledgment ev (calls @ cs)
         | (Inl err, cs) \<Rightarrow>
             (case complete_adaptive_assessment e st4 acknowledgment
                     ''Failed to generate adaptive questions'' of
                (out, st', cs') \<Rightarrow> (out, st', calls @ cs @ cs')))
      else present_next_question e st4 acknowledgment ev calls)"

text \<open>
  The part of \<^verbatim>\<open>process_response\<close> from the comment ``Get acknowledgment'' to the
  comment ``Move to next question or generate new ones'': the interviewer acknowledges
  the answer, whose failure is replaced by a fixed text, and the policy decides between
  completing and going on. \<open>calls\<close> are the calls made before it.
\<close>

definition acknowledge_and_decide ::
  "env \<Rightarrow> orchestrator \<Rightarrow> evaluation \<Rightarrow> agent_call list \<Rightarrow>
     outcome \<times> orchestrator \<times> agent_call list" where
  "acknowledge_and_decide e st evaluation_data calls =
     (let acknowledgment =
            (case acknowledge_reply e of
               Some m \<Rightarrow> m
             | None \<Rightarrow> ''Thank you for your response.'');
          calls2 = calls @ [InterviewerAcknowledge]
      in case should_continue_adaptive_assessment st of
           Inl x \<Rightarrow> (Failure (Raised x), st, calls2)
         | Inr (False, reason) \<Rightarrow>
             (case complete_adaptive_assessment e st acknowledgment reason of
                (out, st', cs) \<Rightarrow> (out, st', calls2 @ cs))
         | Inr (True, reason) \<Rightarrow>
             move_to_next_question e st acknowledgment evaluation_data calls2)"

text \<open>
  \<^verbatim>\<open>process_response\<close>. The answer is written to the chat history before the reviewer is
  called; the profile is updated and the record appended before the follow-up is looked
  at. An exception of the profile update is caught by the handler of the method, which
  returns a failure: the record is not appended then. A failed clarification has no key
  \<^verbatim>\<open>clarification_question\<close>, which raises.
\<close>

definition process_response ::
  "env \<Rightarrow> orchestrator \<Rightarrow> string \<Rightarrow> outcome \<times> orchestrator \<times> agent_call list" where
  "process_response e st candidate_answer =
     (if interview_state st \<noteq> InProgress then (Failure InterviewNotInProgress, st, [])
      else if current_question_index st \<ge> length (current_questions st)
        then (Failure NoCurrentQuestionAvailable, st, [])
      else
        (let current_question = current_questions st ! current_question_index st in
         case question_id current_question of
           None \<Rightarrow> (Failure (Raised (KeyError ''question_id'')), st, [])
         | Some qid \<Rightarrow>
             (let st1 = st\<lparr>chat_history := chat_history st @
                             [AdaptiveResponseChat (clock e) qid candidate_answer
                                (q_skill_target current_question)
                                (requires_dataset current_question)]\<rparr>;
                  calls1 = [ReviewerEvaluate current_question candidate_answer]
              in case evaluate_response e of
                   AgentRaised x \<Rightarrow> (Failure (Raised x), st1, calls1)
                 | AgentFailed \<Rightarrow> (Failure FailedToEvaluateResponse, st1, calls1)
                 | AgentOk evaluation_data \<Rightarrow>
                     (case update_candidate_profile current_question evaluation_data
                             candidate_answer (clock e) st1 of
                        (Some x, st2) \<Rightarrow> (Failure (Raised x), st2, calls1)
                      | (None, st2) \<Rightarrow>
                          (let st3 = st2\<lparr>assessment_results := assessment_results st2 @
                                          [\<lparr>question_index = length (assessment_results st2),
                                            ar_question = current_question,
                                            ar_candidate_answer = candidate_answer,
                                            ar_evaluation = evaluation_data,
                                            ar_timestamp = clock e,
                                            excel_skill = q_skill_target current_question\<rparr>]\<rparr>
                           in if follow_up_needed evaluation_data then
                                (case clarify_reply e of
                                   None \<Rightarrow>
                                     (Failure (Raised (KeyError ''clarification_question'')),
                                      st3, calls1 @ [InterviewerClarify])
                                 | Some clarification \<Rightarrow>
                                     (FollowUp (ev_justification evaluation_data) clarification,
                                      st3, calls1 @ [InterviewerClarify]))
                              else acknowledge_and_decide e st3 evaluation_data calls1)))))"

section \<open>Sessions\<close>

text \<open>A session is a sequence of calls on one orchestrator, each with its own \<open>env\<close>.\<close>

datatype operation = Start env start_args | Respond env string

fun step :: "operation \<Rightarrow> orchestrator \<Rightarrow> orchestrator" where
  "step (Start e a) st = fst (snd (start_interview e a st))"
| "step (Respond e answer) st = fst (snd (process_response e st answer))"

fun run :: "operation list \<Rightarrow> orchestrator \<Rightarrow> orchestrator" where
  "run [] st = st"
| "run (x # xs) st = run xs (step x st)"

text \<open>A session keeps to the protocol when it starts only an orchestrator not yet started.\<close>

fun follows_protocol :: "operation list \<Rightarrow> orchestrator \<Rightarrow> bool" where
  "follows_protocol [] st = True"
| "follows_protocol (Start e a # xs) st =
     (interview_state st = NotStarted \<and> follows_protocol xs (step (Start e a) st))"
| "follows_protocol (Respond e answer # xs) st = follows_protocol xs (step (Respond e answer) st)"

section \<open>Definitions for the statements\<close>

text \<open>
  A sequence of profile updates, each with its question, evaluation, answer and clock.
  An update that raises has made its appends before; the sequence goes on from the state
  it has left.
\<close>

fun update_all ::
  "(question \<times> evaluation \<times> string \<times> timestamp) list \<Rightarrow> orchestrator \<Rightarrow> orchestrator" where
  "update_all [] st = st"
| "update_all ((q, ev, a, t) # us) st = update_all us (snd (update_candidate_profile q ev a t st))"

text \<open>
  The preferred difficulty as the specification words it, from the mean of the scores
  given: Hard from 85, Medium from 70, else Easy.
\<close>

definition mean_difficulty_spec :: "int list \<Rightarrow> string" where
  "mean_difficulty_spec recent =
     (let mean = (of_int (sum_list recent) :: rat) / of_nat (length recent)
      in if mean \<ge> 85 then ''Hard'' else if mean \<ge> 70 then ''Medium'' else ''Easy'')"

text \<open>
  The continue-or-stop policy as the specification words it, over the number of records,
  the last four scores, the maximum number of questions and the number of skills tested.
\<close>

datatype rule = MinimumCoverage | MaxReached | Stabilized | AdequateCoverage | DefaultContinue

definition shouldContinue_spec :: "nat \<Rightarrow> int list \<Rightarrow> int \<Rightarrow> nat \<Rightarrow> bool \<times> rule" where
  "shouldContinue_spec records lastFourScores maxQuestions skillsTestedCount =
     (if records < 4 then (True, MinimumCoverage)
      else if int records \<ge> maxQuestions then (False, MaxReached)
      else if records \<ge> 6 \<and> Max (set lastFourScores) - Min (set lastFourScores) < 15
        then (False, Stabilized)
      else if skillsTestedCount \<ge> 5 then (False, AdequateCoverage)
      else (True, DefaultContinue))"

text \<open>The reason the source gives for each rule.\<close>

fun reason_text :: "rule \<Rightarrow> string" where
  "reason_text MinimumCoverage = ''Need minimum assessment coverage''"
| "reason_text MaxReached = ''Reached maximum question limit''"
| "reason_text Stabilized = ''Performance level established''"
| "reason_text AdequateCoverage = ''Adequate skill coverage achieved''"
| "reason_text DefaultContinue = ''Continue adaptive assessment''"

text \<open>The maximum number of questions the policy reads, 10 while no candidate data is set.\<close>

definition max_questions_of :: "orchestrator \<Rightarrow> int" where
  "max_questions_of st = (case candidate_data st of None \<Rightarrow> 10 | Some cd \<Rightarrow> max_questions cd)"

text \<open>Two invariants of a session, used in the proofs.\<close>

definition queue_ok :: "orchestrator \<Rightarrow> bool" where
  "queue_ok st = ((interview_state st = NotStarted \<longrightarrow> current_question_index st = 0)
                  \<and> current_question_index st \<le> length (current_questions st))"

definition session_data_ok :: "orchestrator \<Rightarrow> bool" where
  "session_data_ok st =
     (interview_state st = NotStarted \<or> (start_time st \<noteq> None \<and> candidate_data st \<noteq> None))"

text \<open>
  The order of the parser's attempts: the whole text, the group of the fenced block when
  there is one, and the spans of the third pattern.
\<close>

definition attempts :: "py_str \<Rightarrow> py_str list" where
  "attempts text =
     text # (case search_fence text of None \<Rightarrow> [] | Some g \<Rightarrow> [g]) @ findall_braces text"

text \<open>
  What it is for the second pattern to match at the head of \<open>s\<close> with group \<open>g\<close>, in any
  of the ways the pattern allows: three backquotes, \<^verbatim>\<open>json\<close> or nothing, spaces, the group
  from an opening to a closing brace, spaces, three backquotes.
\<close>

definition fence_match :: "py_str \<Rightarrow> py_str \<Rightarrow> bool" where
  "fence_match s g =
     (\<exists>tag sp mid ws rest.
        s = fence @ tag @ sp @ g @ ws @ fence @ rest
        \<and> (tag = [] \<or> tag = json_tag)
        \<and> (\<forall>c \<in> set sp. is_space c)
        \<and> g = lbrace # mid @ [rbrace]
        \<and> (\<forall>c \<in> set ws. is_space c))"

text \<open>
  \<open>closes_at_end d s\<close>: read with \<open>d\<close> braces open, \<open>s\<close> never has more than three
  braces open, and its last character is the brace that closes the first of them.
\<close>

fun closes_at_end :: "nat \<Rightarrow> py_str \<Rightarrow> bool" where
  "closes_at_end d [] = False"
| "closes_at_end d (c # cs) =
     (if c = lbrace then d < 3 \<and> closes_at_end (Suc d) cs
      else if c = rbrace then (if d \<le> 1 then cs = [] else closes_at_end (d - 1) cs)
      else closes_at_end d cs)"

text \<open>
  What it is for the third pattern to match at the head of \<open>s\<close> with the span \<open>m\<close>: an
  opening brace and what closes it, at most three braces deep.
\<close>

definition brace_match :: "py_str \<Rightarrow> py_str \<Rightarrow> bool" where
  "brace_match s m = (\<exists>body rest. s = m @ rest \<and> m = lbrace # body \<and> closes_at_end 1 body)"

text \<open>\<open>weave gaps spans\<close> is the text made of the gaps with the spans between them.\<close>

fun weave :: "'a list list \<Rightarrow> 'a list list \<Rightarrow> 'a list" where
  "weave (g # gs) (m # ms) = g @ m @ weave gs ms"
| "weave gs [] = concat gs"
| "weave [] ms = concat ms"

text \<open>
  The third strategy as the specification words it: the braces are counted to any depth.
  \<open>close_span d acc s\<close> reads \<open>s\<close> with \<open>d\<close> braces open and returns the span up to
  the brace that closes the first of them; the candidate spans are found from left to
  right, each search resuming behind the span before it.
\<close>

fun close_span :: "nat \<Rightarrow> py_str \<Rightarrow> py_str \<Rightarrow> py_str option" where
  "close_span d acc [] = None"
| "close_span d acc (c # cs) =
     (if c = lbrace then close_span (Suc d) (c # acc) cs
      else if c = rbrace then
        (if d \<le> 1 then Some (rev (c # acc)) else close_span (d - 1) (c # acc) cs)
      else close_span d (c # acc) cs)"

fun balanced_spans_spec :: "py_str \<Rightarrow> py_str list" where
  "balanced_spans_spec [] = []"
| "balanced_spans_spec (c # cs) =
     (case (if c = lbrace then close_span 1 [c] cs else None) of
        None \<Rightarrow> balanced_spans_spec cs
      | Some m \<Rightarrow> m # balanced_spans_spec (drop (length m - 1) cs))"

text \<open>
  The parser as the specification words it: the same three attempts, the third over the
  balanced spans, and a value returned in every case.
\<close>

definition parse_spec :: "(py_str \<Rightarrow> 'j loaded) \<Rightarrow> py_str \<Rightarrow> parse_error + 'j" where
  "parse_spec loads text =
     (if text = [] then Inl EmptyResponse
      else case first_loaded loads
                  (text # (case search_fence text of None \<Rightarrow> [] | Some g \<Rightarrow> [g])
                        @ balanced_spans_spec text) of
        Decoded d \<Rightarrow> Inr d
      | _ \<Rightarrow> Inl (CouldNotParse text))"

text \<open>The question the cursor points at.\<close>

abbreviation current_question :: "orchestrator \<Rightarrow> question" where
  "current_question st \<equiv> current_questions st ! current_question_index st"

section \<open>Example values\<close>

text \<open>Concrete questions, evaluations, records and states on which the statements are run.\<close>

definition example_question :: "string \<Rightarrow> string \<Rightarrow> question" where
  "example_question qid skill =
     \<lparr>question_id = Some qid,
      q_question = ''How would you summarise sales by region?'',
      q_skill_target = Some skill,
      q_difficulty = Some ''Medium'',
      requires_dataset = False,
      q_dataset_info = None,
      adaptive_reasoning = None\<rparr>"

definition example_evaluation :: "score_value option \<Rightarrow> bool \<Rightarrow> evaluation" where
  "example_evaluation sc follow =
     \<lparr>ev_score = sc,
      ev_grade = Some ''Partly Acceptable'',
      ev_justification = Some ''Methodical answer'',
      follow_up_needed = follow,
      follow_up_suggestion = None\<rparr>"

definition example_record :: "nat \<Rightarrow> score_value option \<Rightarrow> assessment_record" where
  "example_record i sc =
     \<lparr>question_index = i,
      ar_question = example_question ''q'' ''Pivot Tables'',
      ar_candidate_answer = ''I would build a pivot table'',
      ar_evaluation = example_evaluation sc False,
      ar_timestamp = 0,
      excel_skill = Some ''Pivot Tables''\<rparr>"

definition example_candidate_data :: candidate_data where
  "example_candidate_data =
     \<lparr>cd_name = ''Ada'', role_type = ''Business Analyst'',
      difficulty_level = ''Mixed Assessment'', excel_focus_areas = [],
      max_questions = 10, include_datasets = True\<rparr>"

text \<open>
  Three records scoring 10 each; six records whose last four score 70, 72, 68, 75; and
  twelve records, the first of them without a score.
\<close>

definition floor_state :: orchestrator where
  "floor_state = init_orchestrator
     \<lparr>candidate_data := Some example_candidate_data,
      assessment_results :=
        [example_record 0 (Some (IntScore 10)), example_record 1 (Some (IntScore 10)),
         example_record 2 (Some (IntScore 10))]\<rparr>"

definition plateau_state :: orchestrator where
  "plateau_state = init_orchestrator
     \<lparr>candidate_data := Some example_candidate_data,
      assessment_results :=
        [example_record 0 (Some (IntScore 40)), example_record 1 (Some (IntScore 90)),
         example_record 2 (Some (IntScore 70)), example_record 3 (Some (IntScore 72)),
         example_record 4 (Some (IntScore 68)), example_record 5 (Some (IntScore 75))]\<rparr>"

definition long_state :: orchestrator where
  "long_state = init_orchestrator
     \<lparr>candidate_data := Some example_candidate_data,
      assessment_results :=
        example_record 0 None # map (\<lambda>i. example_record i (Some (IntScore 50))) [1..<12]\<rparr>"

text \<open>A profile in which Pivot Tables has been flagged as a weakness.\<close>

definition flagged_state :: orchestrator where
  "flagged_state = init_orchestrator
     \<lparr>candidate_profile := (candidate_profile init_orchestrator)
        \<lparr>weaknesses := [''Pivot Tables''], areas_needing_focus := [''Pivot Tables'']\<rparr>\<rparr>"

text \<open>A profile after two answers on Pivot Tables that scored 60 and 95.\<close>

definition two_answers_state :: orchestrator where
  "two_answers_state = init_orchestrator
     \<lparr>candidate_profile := (candidate_profile init_orchestrator)
        \<lparr>strengths := [''Pivot Tables''],
         skill_trajectory :=
           [\<lparr>te_skill = ''Pivot Tables'', te_score = IntScore 60, te_difficulty = ''Medium'',
             te_timestamp = 1\<rparr>,
            \<lparr>te_skill = ''Pivot Tables'', te_score = IntScore 95, te_difficulty = ''Medium'',
             te_timestamp = 2\<rparr>]\<rparr>\<rparr>"

text \<open>
  The texts the agents reply with in the examples, what \<^verbatim>\<open>json.loads\<close> returns on them,
  and an environment in which every collaborator answers.
\<close>

definition questions_text :: "string \<Rightarrow> string \<Rightarrow> py_str" where
  \<open>questions_text a b = codepoints
     (''{"questions": [{"question_id": "'' @ a @ ''", "question": "How would you summarise sales by region?", "skill_target": "Pivot Tables", "difficulty": "Medium"}, {"question_id": "'' @ b @ ''", "question": "How would you summarise sales by region?", "skill_target": "Lookup Functions", "difficulty": "Medium"}]}'')\<close>

definition questions_payload :: "string \<Rightarrow> string \<Rightarrow> generation_payload" where
  "questions_payload a b =
     \<lparr>gp_questions = Questions [example_question a ''Pivot Tables'',
                                 example_question b ''Lookup Functions''],
      gp_reasoning = [], gp_trajectory_decision = []\<rparr>"


definition no_questions_text :: py_str where
  \<open>no_questions_text = codepoints ''{"reasoning": "nothing to ask"}''\<close>

definition evaluation_text :: py_str where
  \<open>evaluation_text = codepoints
     ''{"score": 90, "grade": "Partly Acceptable", "justification": "Methodical answer"}''\<close>

definition follow_up_text :: py_str where
  \<open>follow_up_text = codepoints
     ''{"score": 55, "grade": "Partly Acceptable", "justification": "Methodical answer", "follow_up_needed": true}''\<close>

definition no_score_text :: py_str where
  \<open>no_score_text = codepoints
     ''{"grade": "Partly Acceptable", "justification": "Methodical answer"}''\<close>

definition zero_score_text :: py_str where
  \<open>zero_score_text = codepoints
     ''{"score": 0, "grade": "Partly Acceptable", "justification": "Methodical answer"}''\<close>

definition empty_list_text :: py_str where
  "empty_list_text = codepoints ''[]''"

definition pass_text :: py_str where
  \<open>pass_text = codepoints ''{"decision": "Pass", "overall_score": 88}''\<close>

definition example_loads_evaluation :: "py_str \<Rightarrow> evaluation json_doc loaded" where
  "example_loads_evaluation s =
     (if s = evaluation_text then Decoded (JDict (example_evaluation (Some (IntScore 90)) False))
      else if s = follow_up_text then Decoded (JDict (example_evaluation (Some (IntScore 55)) True))
      else if s = no_score_text then Decoded (JDict (example_evaluation None False))
      else if s = zero_score_text then Decoded (JDict (example_evaluation (Some (IntScore 0)) False))
      else if s = empty_list_text then Decoded JOther
      else DecodeError)"

definition example_loads_questions :: "py_str \<Rightarrow> generation_payload json_doc loaded" where
  "example_loads_questions s =
     (if s = questions_text ''q1'' ''q2'' then Decoded (JDict (questions_payload ''q1'' ''q2''))
      else if s = questions_text ''q3'' ''q4'' then Decoded (JDict (questions_payload ''q3'' ''q4''))
      else if s = no_questions_text
        then Decoded (JDict \<lparr>gp_questions = Questions [], gp_reasoning = ''nothing to ask'',
                            gp_trajectory_decision = []\<rparr>)
      else DecodeError)"

definition example_loads_decision :: "py_str \<Rightarrow> final_decision json_doc loaded" where
  "example_loads_decision s =
     (if s = pass_text
        then Decoded (JDict \<lparr>fd_decision = Some ''Pass'', fd_overall_score = Some 88,
                            fd_recommendation_summary = None\<rparr>)
      else if s = empty_list_text then Decoded JOther
      else DecodeError)"

definition helpful_env :: env where
  "helpful_env =
     \<lparr>clock = 7,
      quecraft_reply = Some (questions_text ''q1'' ''q2''),
      reviewer_reply = Some evaluation_text,
      recruiter_reply = Some pass_text,
      loads_questions = example_loads_questions,
      loads_evaluation = example_loads_evaluation,
      loads_decision = example_loads_decision,
      dataset_for = (\<lambda>q. None),
      welcome_reply = Some ''Welcome'',
      present_reply = (\<lambda>q. Some ''Here is your question''),
      acknowledge_reply = Some ''Thank you'',
      clarify_reply = Some ''Could you say more about the steps?'',
      conclude_reply = Some ''Goodbye''\<rparr>"

definition example_args :: start_args where
  "example_args =
     \<lparr>sa_candidate_name = ''Ada'', sa_role_type = ''Business Analyst'',
      sa_difficulty_level = ''Mixed Assessment'', sa_excel_focus_areas = None,
      sa_max_questions = 10, sa_include_datasets = True\<rparr>"

definition started_state :: orchestrator where
  "started_state = step (Start helpful_env example_args) init_orchestrator"

text \<open>The state after the first answer of the example session.\<close>

definition second_state :: orchestrator where
  "second_state = step (Respond helpful_env ''A pivot table'') started_state"

text \<open>
  The example session after \<open>k\<close> answers to the first question that each scored 55
  and were each met with a request for clarification.
\<close>

definition probing_env :: env where
  "probing_env = helpful_env\<lparr>reviewer_reply := Some follow_up_text\<rparr>"

definition probed_state :: "nat \<Rightarrow> orchestrator" where
  "probed_state k = run (replicate k (Respond probing_env ''A pivot table'')) started_state"

text \<open>
  An environment whose questions ask for a dataset and whose generator delivers one, and
  the session in it after the start.
\<close>

definition dataset_question :: "string \<Rightarrow> question" where
  "dataset_question qid = (example_question qid ''Pivot Tables'')\<lparr>requires_dataset := True\<rparr>"

definition dataset_text :: py_str where
  \<open>dataset_text = codepoints
     ''{"questions": [{"question_id": "d1", "question": "How would you summarise sales by region?", "skill_target": "Pivot Tables", "difficulty": "Medium", "requires_dataset": true}]}''\<close>

definition dataset_env :: env where
  "dataset_env = helpful_env
     \<lparr>quecraft_reply := Some dataset_text,
      loads_questions := (\<lambda>s. if s = dataset_text
         then Decoded (JDict \<lparr>gp_questions = Questions [dataset_question ''d1''],
                              gp_reasoning = [], gp_trajectory_decision = []\<rparr>)
         else DecodeError),
      dataset_for := (\<lambda>q. Some (''<table></table>'', ''rows: 40''))\<rparr>"

definition dataset_started_state :: orchestrator where
  "dataset_started_state = step (Start dataset_env example_args) init_orchestrator"

text \<open>
  JSON values for the parser's examples, and what \<^verbatim>\<open>json.loads\<close> returns on the texts
  that occur in them.
\<close>

datatype json = JNumber int | JString string | JObject "(string \<times> json) list"

definition nested_loads :: "py_str \<Rightarrow> json loaded" where
  \<open>nested_loads s =
     (if s = codepoints ''{"a":{"b":{"c":{"d":1}}}}''
        then Decoded (JObject [(''a'', JObject [(''b'', JObject [(''c'', JObject [(''d'', JNumber 1)])])])])
      else if s = codepoints ''{"b":{"c":{"d":1}}}''
        then Decoded (JObject [(''b'', JObject [(''c'', JObject [(''d'', JNumber 1)])])])
      else if s = codepoints ''{"c":{"d":1}}''
        then Decoded (JObject [(''c'', JObject [(''d'', JNumber 1)])])
      else if s = codepoints ''{"d":1}'' then Decoded (JObject [(''d'', JNumber 1)])
      else DecodeError)\<close>

definition deep_text :: py_str where
  "deep_text = replicate 100000 91"

definition deep_loads :: "py_str \<Rightarrow> json loaded" where
  "deep_loads s = (if s = deep_text then LoadRaised RecursionError else DecodeError)"

text \<open>
  Prose with a bare object and then a fenced block, whose fence is followed by an em
  space and closed after an ideographic space; prose with a span that does not decode
  and one that does; an object nested four deep; and a hundred thousand opening
  brackets, on which \<^verbatim>\<open>json.loads\<close> raises RecursionError.
\<close>

definition fenced_text :: py_str where
  \<open>fenced_text = codepoints ''See {"d":1} or ```json'' @ [0x2003] @ codepoints ''{"c":{"d":1}}''
                   @ [0x3000] @ codepoints ''```''\<close>

definition scanned_text :: py_str where
  \<open>scanned_text = codepoints ''Either {oops} or {"d":1} or {"c":{"d":1}}''\<close>

definition plan_text :: py_str where
  \<open>plan_text = codepoints ''Plan: {"a":{"b":{"c":{"d":1}}}}''\<close>

section \<open>Auxiliary facts\<close>

subsection \<open>Lists and code points\<close>

lemma codepoints_eq_iff [simp]: "(codepoints s = codepoints t) = (s = t)"
  by (simp add: codepoints_def inj_map_eq_map inj_on_def)

lemma codepoints_empty [simp]: "(codepoints s = []) = (s = [])"
  by (simp add: codepoints_def)

lemma length_last_n: "length (last_n k xs) = min k (length xs)"
  by (auto simp: last_n_def)

lemma map_last_n: "map f (last_n k xs) = last_n k (map f xs)"
  by (simp add: last_n_def drop_map)

lemma last_n_snoc_nonempty: "0 < k \<Longrightarrow> last_n k (xs @ [x]) \<noteq> []"
  by (simp add: last_n_def)

lemma last_n_min: "drop (length xs - min k (length xs)) xs = last_n k xs"
  by (simp add: last_n_def min_def)

lemma ints_of_map [simp]: "ints_of (map IntScore ns) = Some ns"
  by (induction ns) (simp_all add: ints_of_def)

lemma ints_of_Some: "ints_of ss = Some ns \<Longrightarrow> ss = map IntScore ns"
proof (induction ss arbitrary: ns)
  case Nil
  then show ?case by (simp add: ints_of_def)
next
  case (Cons s ss)
  then show ?case
    by (cases s) (auto simp: ints_of_def split: option.splits)
qed

lemma those_drop:
  "those xs = Some ys \<Longrightarrow> those (drop k xs) = Some (drop k ys)"
proof (induction xs arbitrary: ys k)
  case Nil
  then show ?case by simp
next
  case (Cons x xs)
  then show ?case by (cases k) (auto split: option.splits)
qed

lemma those_length: "those xs = Some ys \<Longrightarrow> length ys = length xs"
  by (induction xs arbitrary: ys) (auto split: option.splits)

subsection \<open>The mean and the preferred difficulty\<close>

lemma mean_ge_iff:
  assumes "xs \<noteq> []"
  shows "((of_int c :: rat) \<le> of_int (sum_list xs) / of_nat (length xs))
           = (c * int (length xs) \<le> sum_list xs)"
proof -
  have pos: "(0::rat) < of_nat (length xs)" using assms by simp
  have "(of_int c \<le> (of_int (sum_list xs) :: rat) / of_nat (length xs))
        = ((of_int c :: rat) * of_nat (length xs) \<le> of_int (sum_list xs))"
    using pos by (simp add: pos_le_divide_eq)
  also have "\<dots> = ((of_int (c * int (length xs)) :: rat) \<le> of_int (sum_list xs))"
    by simp
  also have "\<dots> = (c * int (length xs) \<le> sum_list xs)"
    by (simp only: of_int_le_iff)
  finally show ?thesis .
qed

lemma avg_recent_ints:
  "avg_recent (map IntScore ns) =
     (if float_overflow (of_int (sum_list ns) / of_nat (length ns)) then Inl OverflowError
      else Inr (of_int (sum_list ns) / of_nat (length ns)))"
  by (simp add: avg_recent_def Let_def)

lemma difficulty_for_mean:
  "difficulty_for (of_int (sum_list ns) / of_nat (length ns)) = mean_difficulty_spec ns"
  by (simp add: difficulty_for_def mean_difficulty_spec_def Let_def)

subsection \<open>The profile update\<close>

text \<open>The update in one equation: the exception, and the two attributes it assigns.\<close>

lemma update_normal_form:
  "update_candidate_profile q ev a t st =
     ((case score_of ev of
         NonNumber \<Rightarrow> Some TypeError
       | IntScore n \<Rightarrow>
           (case avg_recent (last_n 3 (map te_score (skill_trajectory (candidate_profile st))
                                        @ [IntScore n])) of
              Inl x \<Rightarrow> Some x | Inr m \<Rightarrow> None)),
      st\<lparr>excel_performance_by_skill :=
            (excel_performance_by_skill st)
              (skill_of q \<mapsto>
                 (case excel_performance_by_skill st (skill_of q) of None \<Rightarrow> [] | Some es \<Rightarrow> es) @
                 [\<lparr>pe_score = score_of ev, pe_grade = grade_of ev,
                   pe_question_difficulty = difficulty_of q, pe_timestamp = t\<rparr>]),
          candidate_profile :=
            (candidate_profile st)
              \<lparr>skill_trajectory := skill_trajectory (candidate_profile st) @
                  [\<lparr>te_skill = skill_of q, te_score = score_of ev,
                    te_difficulty = difficulty_of q, te_timestamp = t\<rparr>],
               strengths :=
                 (case score_of ev of
                    NonNumber \<Rightarrow> strengths (candidate_profile st)
                  | IntScore n \<Rightarrow>
                      if n \<ge> 80 \<and> skill_of q \<notin> set (strengths (candidate_profile st))
                      then strengths (candidate_profile st) @ [skill_of q]
                      else strengths (candidate_profile st)),
               weaknesses :=
                 (case score_of ev of
                    NonNumber \<Rightarrow> weaknesses (candidate_profile st)
                  | IntScore n \<Rightarrow>
                      if n < 60 \<and> skill_of q \<notin> set (weaknesses (candidate_profile st))
                      then weaknesses (candidate_profile st) @ [skill_of q]
                      else weaknesses (candidate_profile st)),
               areas_needing_focus :=
                 (case score_of ev of
                    NonNumber \<Rightarrow> areas_needing_focus (candidate_profile st)
                  | IntScore n \<Rightarrow>
                      if n < 60 \<and> skill_of q \<notin> set (areas_needing_focus (candidate_profile st))
                      then areas_needing_focus (candidate_profile st) @ [skill_of q]
                      else areas_needing_focus (candidate_profile st)),
               preferred_difficulty :=
                 (case score_of ev of
                    NonNumber \<Rightarrow> preferred_difficulty (candidate_profile st)
                  | IntScore n \<Rightarrow>
                      (case avg_recent (last_n 3 (map te_score (skill_trajectory (candidate_profile st))
                                                   @ [IntScore n])) of
                         Inl x \<Rightarrow> preferred_difficulty (candidate_profile st)
                       | Inr m \<Rightarrow> difficulty_for m))\<rparr>\<rparr>)"
  by (simp add: update_candidate_profile_def Let_def map_last_n last_n_snoc_nonempty
        split: score_value.splits sum.splits)

lemma update_frame:
  "current_questions (snd (update_candidate_profile q ev a t st)) = current_questions st"
  "current_question_index (snd (update_candidate_profile q ev a t st)) = current_question_index st"
  "assessment_results (snd (update_candidate_profile q ev a t st)) = assessment_results st"
  "interview_state (snd (update_candidate_profile q ev a t st)) = interview_state st"
  "chat_history (snd (update_candidate_profile q ev a t st)) = chat_history st"
  "excel_skills_tested (snd (update_candidate_profile q ev a t st)) = excel_skills_tested st"
  "candidate_data (snd (update_candidate_profile q ev a t st)) = candidate_data st"
  "start_time (snd (update_candidate_profile q ev a t st)) = start_time st"
  "end_time (snd (update_candidate_profile q ev a t st)) = end_time st"
  "trajectory_decisions (snd (update_candidate_profile q ev a t st)) = trajectory_decisions st"
  "interview_metadata (snd (update_candidate_profile q ev a t st)) = interview_metadata st"
  by (simp_all add: update_normal_form)

lemma update_performance:
  "excel_performance_by_skill (snd (update_candidate_profile q ev a t st)) =
     (excel_performance_by_skill st)
       (skill_of q \<mapsto>
          (case excel_performance_by_skill st (skill_of q) of None \<Rightarrow> [] | Some es \<Rightarrow> es) @
          [\<lparr>pe_score = score_of ev, pe_grade = grade_of ev,
            pe_question_difficulty = difficulty_of q, pe_timestamp = t\<rparr>])"
  by (simp add: update_normal_form)

lemma update_trajectory:
  "skill_trajectory (candidate_profile (snd (update_candidate_profile q ev a t st))) =
     skill_trajectory (candidate_profile st) @
       [\<lparr>te_skill = skill_of q, te_score = score_of ev,
         te_difficulty = difficulty_of q, te_timestamp = t\<rparr>]"
  by (simp add: update_normal_form)

lemma update_lists:
  assumes "score_of ev = IntScore n"
  shows "strengths (candidate_profile (snd (update_candidate_profile q ev a t st))) =
           (if n \<ge> 80 \<and> skill_of q \<notin> set (strengths (candidate_profile st))
            then strengths (candidate_profile st) @ [skill_of q]
            else strengths (candidate_profile st))"
    and "weaknesses (candidate_profile (snd (update_candidate_profile q ev a t st))) =
           (if n < 60 \<and> skill_of q \<notin> set (weaknesses (candidate_profile st))
            then weaknesses (candidate_profile st) @ [skill_of q]
            else weaknesses (candidate_profile st))"
    and "areas_needing_focus (candidate_profile (snd (update_candidate_profile q ev a t st))) =
           (if n < 60 \<and> skill_of q \<notin> set (areas_needing_focus (candidate_profile st))
            then areas_needing_focus (candidate_profile st) @ [skill_of q]
            else areas_needing_focus (candidate_profile st))"
  using assms by (simp_all add: update_normal_form)

lemma update_lists_grow:
  "prefix (weaknesses (candidate_profile st))
          (weaknesses (candidate_profile (snd (update_candidate_profile q ev a t st))))"
  "prefix (areas_needing_focus (candidate_profile st))
          (areas_needing_focus (candidate_profile (snd (update_candidate_profile q ev a t st))))"
  by (simp_all add: update_normal_form split: score_value.splits)

lemma update_context:
  "role_context (candidate_profile (snd (update_candidate_profile q ev a t st))) =
     role_context (candidate_profile st)"
  "initial_difficulty (candidate_profile (snd (update_candidate_profile q ev a t st))) =
     initial_difficulty (candidate_profile st)"
  "focus_areas (candidate_profile (snd (update_candidate_profile q ev a t st))) =
     focus_areas (candidate_profile st)"
  by (simp_all add: update_normal_form)

text \<open>The scores the mean is formed of: the last three of the trajectory with the new one.\<close>

lemma update_raises:
  "fst (update_candidate_profile q ev a t st) =
     (case score_of ev of
        NonNumber \<Rightarrow> Some TypeError
      | IntScore n \<Rightarrow>
          (case avg_recent (last_n 3 (map te_score (skill_trajectory (candidate_profile st))
                                       @ [IntScore n])) of
             Inl x \<Rightarrow> Some x | Inr m \<Rightarrow> None))"
  by (simp add: update_normal_form)

lemma update_difficulty:
  assumes "score_of ev = IntScore n"
  shows "preferred_difficulty (candidate_profile (snd (update_candidate_profile q ev a t st))) =
           (case avg_recent (last_n 3 (map te_score (skill_trajectory (candidate_profile st))
                                        @ [IntScore n])) of
              Inl x \<Rightarrow> preferred_difficulty (candidate_profile st)
            | Inr m \<Rightarrow> difficulty_for m)"
  using assms by (simp add: update_normal_form)

lemma update_chat:
  "fst (update_candidate_profile q ev a t (st\<lparr>chat_history := h\<rparr>)) =
     fst (update_candidate_profile q ev a t st)"
  "snd (update_candidate_profile q ev a t (st\<lparr>chat_history := h\<rparr>)) =
     (snd (update_candidate_profile q ev a t st))\<lparr>chat_history := h\<rparr>"
proof -
  have p: "candidate_profile (st\<lparr>chat_history := h\<rparr>) = candidate_profile st"
    and f: "excel_performance_by_skill (st\<lparr>chat_history := h\<rparr>) = excel_performance_by_skill st"
    by simp_all
  show "fst (update_candidate_profile q ev a t (st\<lparr>chat_history := h\<rparr>)) =
          fst (update_candidate_profile q ev a t st)"
    unfolding update_normal_form p by simp
  show "snd (update_candidate_profile q ev a t (st\<lparr>chat_history := h\<rparr>)) =
          (snd (update_candidate_profile q ev a t st))\<lparr>chat_history := h\<rparr>"
    unfolding update_normal_form p f by simp
qed

lemma update_all_trajectory:
  "skill_trajectory (candidate_profile (update_all us st)) =
     skill_trajectory (candidate_profile st) @
       map (\<lambda>(q, ev, a, t). \<lparr>te_skill = skill_of q, te_score = score_of ev,
                              te_difficulty = difficulty_of q, te_timestamp = t\<rparr>) us"
  by (induction us st rule: update_all.induct) (simp_all add: update_trajectory)

subsection \<open>The policy\<close>

lemma score_variance_ints:
  assumes "ns \<noteq> []"
  shows "score_variance (map IntScore ns) = Inr (Max (set ns) - Min (set ns))"
proof (cases ns)
  case Nil
  with assms show ?thesis by simp
next
  case (Cons x ys)
  have "Max (set (x # ys)) = fold max ys x" and "Min (set (x # ys)) = fold min ys x"
    by (rule Max.set_eq_fold, rule Min.set_eq_fold)
  moreover have "ints_of (IntScore x # map IntScore ys) = Some (x # ys)"
    using ints_of_map [of "x # ys"] by simp
  ultimately show ?thesis using Cons by (simp add: score_variance_def)
qed

lemma should_continue_floor:
  "length (assessment_results st) < 4 \<Longrightarrow>
     should_continue_adaptive_assessment st = Inr (True, ''Need minimum assessment coverage'')"
  by (simp add: should_continue_adaptive_assessment_def)

lemma scores_of_length: "scores_of rs = Inr ss \<Longrightarrow> length ss = length rs"
  by (auto simp: scores_of_def those_length split: option.splits)

lemma should_continue_refines:
  assumes "6 \<le> length (assessment_results st)
           \<and> int (length (assessment_results st)) < max_questions_of st
           \<longrightarrow> scores_of (last_n 4 (assessment_results st)) = Inr (map IntScore recent)"
  shows "should_continue_adaptive_assessment st =
           Inr (case shouldContinue_spec (length (assessment_results st)) recent
                       (max_questions_of st) (card (excel_skills_tested st))
                of (c, r) \<Rightarrow> (c, reason_text r))"
proof (cases "6 \<le> length (assessment_results st)
              \<and> int (length (assessment_results st)) < max_questions_of st")
  case True
  with assms have sc: "scores_of (last_n 4 (assessment_results st)) = Inr (map IntScore recent)"
    by simp
  from scores_of_length [OF sc] True have "recent \<noteq> []"
    by (auto simp: length_last_n)
  from score_variance_ints [OF this] True sc show ?thesis
    unfolding should_continue_adaptive_assessment_def shouldContinue_spec_def Let_def
    by (auto simp: skill_coverage_check_def max_questions_of_def)
next
  case False
  then show ?thesis
    unfolding should_continue_adaptive_assessment_def shouldContinue_spec_def Let_def
    by (auto simp: skill_coverage_check_def max_questions_of_def)
qed

lemma should_continue_raises:
  assumes "6 \<le> length (assessment_results st)"
      and "int (length (assessment_results st)) < max_questions_of st"
      and "\<forall>recent. scores_of (last_n 4 (assessment_results st)) \<noteq> Inr (map IntScore recent)"
  shows "\<exists>x. should_continue_adaptive_assessment st = Inl x"
proof (cases "scores_of (last_n 4 (assessment_results st))")
  case (Inl x)
  with assms(1,2) show ?thesis
    by (simp add: should_continue_adaptive_assessment_def max_questions_of_def)
next
  case (Inr ss)
  with assms(3) have "ints_of ss = None"
    by (cases "ints_of ss") (auto dest: ints_of_Some)
  moreover from scores_of_length [OF Inr] assms(1) have "ss \<noteq> []"
    by (auto simp: length_last_n)
  ultimately show ?thesis using assms(1,2) Inr
    by (simp add: should_continue_adaptive_assessment_def max_questions_of_def score_variance_def)
qed

subsection \<open>Question generation\<close>

lemma generate_cong:
  "candidate_data st = candidate_data st' \<Longrightarrow> assessment_results st = assessment_results st' \<Longrightarrow>
     generate_next_questions e st = generate_next_questions e st'"
  by (simp add: generate_next_questions_def)

lemma generate_ok_calls:
  "fst (generate_next_questions e st) = Inr gb \<Longrightarrow>
     generate_next_questions e st = (Inr gb, [QueCraftGenerate])"
  by (auto simp: generate_next_questions_def
        split: option.splits if_splits parsed.splits json_doc.splits questions_value.splits)

lemma generate_calls_any:
  "InterviewerPresent q \<notin> set (snd (generate_next_questions e st))"
  by (auto simp: generate_next_questions_def
        split: option.splits if_splits parsed.splits json_doc.splits questions_value.splits)

lemma generate_dumps_raises:
  "candidate_data st \<noteq> None \<Longrightarrow> dumps_raises (last_n 3 (assessment_results st)) \<Longrightarrow>
     generate_next_questions e st = (Inl (GenerateRaised TypeError), [])"
  by (auto simp: generate_next_questions_def)

subsection \<open>Frames of the parts of a call\<close>

lemma complete_frame:
  "current_questions (fst (snd (complete_adaptive_assessment e st ack reason))) = current_questions st"
  "current_question_index (fst (snd (complete_adaptive_assessment e st ack reason))) = current_question_index st"
  "candidate_profile (fst (snd (complete_adaptive_assessment e st ack reason))) = candidate_profile st"
  "assessment_results (fst (snd (complete_adaptive_assessment e st ack reason))) = assessment_results st"
  "interview_state (fst (snd (complete_adaptive_assessment e st ack reason))) = Completed"
  "end_time (fst (snd (complete_adaptive_assessment e st ack reason))) = Some (clock e)"
  "start_time (fst (snd (complete_adaptive_assessment e st ack reason))) = start_time st"
  "candidate_data (fst (snd (complete_adaptive_assessment e st ack reason))) = candidate_data st"
  "chat_history (fst (snd (complete_adaptive_assessment e st ack reason))) = chat_history st"
  "excel_skills_tested (fst (snd (complete_adaptive_assessment e st ack reason))) = excel_skills_tested st"
  "excel_performance_by_skill (fst (snd (complete_adaptive_assessment e st ack reason))) =
     excel_performance_by_skill st"
  "trajectory_decisions (fst (snd (complete_adaptive_assessment e st ack reason))) =
     trajectory_decisions st"
  by (simp_all add: complete_adaptive_assessment_def Let_def split: agent_result.splits option.splits)

lemma complete_calls:
  "InterviewerPresent q \<notin> set (snd (snd (complete_adaptive_assessment e st ack reason)))"
  "QueCraftGenerate \<notin> set (snd (snd (complete_adaptive_assessment e st ack reason)))"
  by (simp_all add: complete_adaptive_assessment_def Let_def split: agent_result.splits option.splits)

lemma present_frame:
  "current_questions (fst (snd (present_next_question e st ack ev calls))) = current_questions st"
  "current_question_index (fst (snd (present_next_question e st ack ev calls))) = current_question_index st"
  "candidate_profile (fst (snd (present_next_question e st ack ev calls))) = candidate_profile st"
  "assessment_results (fst (snd (present_next_question e st ack ev calls))) = assessment_results st"
  "interview_state (fst (snd (present_next_question e st ack ev calls))) = interview_state st"
  "start_time (fst (snd (present_next_question e st ack ev calls))) = start_time st"
  "candidate_data (fst (snd (present_next_question e st ack ev calls))) = candidate_data st"
  "end_time (fst (snd (present_next_question e st ack ev calls))) = end_time st"
  "excel_performance_by_skill (fst (snd (present_next_question e st ack ev calls))) =
     excel_performance_by_skill st"
  "trajectory_decisions (fst (snd (present_next_question e st ack ev calls))) =
     trajectory_decisions st"
  by (simp_all add: present_next_question_def Let_def split: option.splits)

lemma present_calls:
  "snd (snd (present_next_question e st ack ev calls)) = calls
   \<or> (current_question_index st < length (current_questions st)
      \<and> snd (snd (present_next_question e st ack ev calls)) =
          calls @ [InterviewerPresent (current_question st)])"
  by (simp add: present_next_question_def Let_def split: option.splits)

lemma move_frame:
  "candidate_profile (fst (snd (move_to_next_question e st ack ev calls))) = candidate_profile st"
  "assessment_results (fst (snd (move_to_next_question e st ack ev calls))) = assessment_results st"
  "interview_state st = InProgress \<Longrightarrow>
     interview_state (fst (snd (move_to_next_question e st ack ev calls))) \<noteq> NotStarted"
  "prefix qs (current_questions st) \<Longrightarrow>
     prefix qs (current_questions (fst (snd (move_to_next_question e st ack ev calls))))"
  "current_question_index st < length (current_questions st) \<Longrightarrow>
     current_question_index (fst (snd (move_to_next_question e st ack ev calls)))
       \<le> length (current_questions (fst (snd (move_to_next_question e st ack ev calls))))"
  "start_time (fst (snd (move_to_next_question e st ack ev calls))) = start_time st"
  "candidate_data (fst (snd (move_to_next_question e st ack ev calls))) = candidate_data st"
  "excel_performance_by_skill (fst (snd (move_to_next_question e st ack ev calls))) =
     excel_performance_by_skill st"
  by (simp_all add: move_to_next_question_def Let_def complete_frame present_frame case_prod_beta
       split: sum.splits)

lemma move_index:
  "current_question_index (fst (snd (move_to_next_question e st ack ev calls))) =
     Suc (current_question_index st)"
  by (simp add: move_to_next_question_def Let_def complete_frame present_frame case_prod_beta
        split: sum.splits)

lemma decide_frame:
  "candidate_profile (fst (snd (acknowledge_and_decide e st ev calls))) = candidate_profile st"
  "assessment_results (fst (snd (acknowledge_and_decide e st ev calls))) = assessment_results st"
  "interview_state st = InProgress \<Longrightarrow>
     interview_state (fst (snd (acknowledge_and_decide e st ev calls))) \<noteq> NotStarted"
  "prefix qs (current_questions st) \<Longrightarrow>
     prefix qs (current_questions (fst (snd (acknowledge_and_decide e st ev calls))))"
  "current_question_index st < length (current_questions st) \<Longrightarrow>
     current_question_index (fst (snd (acknowledge_and_decide e st ev calls)))
       \<le> length (current_questions (fst (snd (acknowledge_and_decide e st ev calls))))"
  "start_time (fst (snd (acknowledge_and_decide e st ev calls))) = start_time st"
  "candidate_data (fst (snd (acknowledge_and_decide e st ev calls))) = candidate_data st"
  "excel_performance_by_skill (fst (snd (acknowledge_and_decide e st ev calls))) =
     excel_performance_by_skill st"
  by (simp_all add: acknowledge_and_decide_def Let_def complete_frame move_frame case_prod_beta
       split: sum.splits bool.splits)

subsection \<open>Processing a response\<close>

lemma process_not_in_progress:
  "interview_state st \<noteq> InProgress \<Longrightarrow> fst (snd (process_response e st a)) = st"
  by (simp add: process_response_def)

text \<open>The call after a successful evaluation, in terms of the state before it.\<close>

lemma process_evaluated:
  assumes "interview_state st = InProgress"
      and "current_question_index st < length (current_questions st)"
      and "question_id (current_question st) = Some qid"
      and "evaluate_response e = AgentOk ev"
  shows "process_response e st a =
           (case fst (update_candidate_profile (current_question st) ev a (clock e) st) of
              Some x \<Rightarrow>
                (Failure (Raised x),
                 (snd (update_candidate_profile (current_question st) ev a (clock e) st))
                   \<lparr>chat_history := chat_history st @
                      [AdaptiveResponseChat (clock e) qid a (q_skill_target (current_question st))
                         (requires_dataset (current_question st))]\<rparr>,
                 [ReviewerEvaluate (current_question st) a])
            | None \<Rightarrow>
                (if follow_up_needed ev then
                   (case clarify_reply e of
                      None \<Rightarrow>
                        (Failure (Raised (KeyError ''clarification_question'')),
                         (snd (update_candidate_profile (current_question st) ev a (clock e) st))
                           \<lparr>chat_history := chat_history st @
                              [AdaptiveResponseChat (clock e) qid a
                                 (q_skill_target (current_question st))
                                 (requires_dataset (current_question st))],
                            assessment_results := assessment_results st @
                              [\<lparr>question_index = length (assessment_results st),
                                ar_question = current_question st,
                                ar_candidate_answer = a,
                                ar_evaluation = ev,
                                ar_timestamp = clock e,
                                excel_skill = q_skill_target (current_question st)\<rparr>]\<rparr>,
                         [ReviewerEvaluate (current_question st) a, InterviewerClarify])
                    | Some c \<Rightarrow>
                        (FollowUp (ev_justification ev) c,
                         (snd (update_candidate_profile (current_question st) ev a (clock e) st))
                           \<lparr>chat_history := chat_history st @
                              [AdaptiveResponseChat (clock e) qid a
                                 (q_skill_target (current_question st))
                                 (requires_dataset (current_question st))],
                            assessment_results := assessment_results st @
                              [\<lparr>question_index = length (assessment_results st),
                                ar_question = current_question st,
                                ar_candidate_answer = a,
                                ar_evaluation = ev,
                                ar_timestamp = clock e,
                                excel_skill = q_skill_target (current_question st)\<rparr>]\<rparr>,
                         [ReviewerEvaluate (current_question st) a, InterviewerClarify]))
                 else
                   acknowledge_and_decide e
                     ((snd (update_candidate_profile (current_question st) ev a (clock e) st))
                        \<lparr>chat_history := chat_history st @
                           [AdaptiveResponseChat (clock e) qid a
                              (q_skill_target (current_question st))
                              (requires_dataset (current_question st))],
                         assessment_results := assessment_results st @
                           [\<lparr>question_index = length (assessment_results st),
                             ar_question = current_question st,
                             ar_candidate_answer = a,
                             ar_evaluation = ev,
                             ar_timestamp = clock e,
                             excel_skill = q_skill_target (current_question st)\<rparr>]\<rparr>)
                     ev [ReviewerEvaluate (current_question st) a]))"
  using assms
  by (simp add: process_response_def Let_def case_prod_beta update_chat update_frame
        split: option.splits)


text \<open>What a call leaves as it is, or only extends.\<close>

lemma process_frame:
  "prefix (current_questions st) (current_questions (fst (snd (process_response e st a))))"
  "current_question_index st \<le> length (current_questions st) \<Longrightarrow>
     current_question_index (fst (snd (process_response e st a)))
       \<le> length (current_questions (fst (snd (process_response e st a))))"
  "interview_state st = InProgress \<Longrightarrow>
     interview_state (fst (snd (process_response e st a))) \<noteq> NotStarted"
  "start_time (fst (snd (process_response e st a))) = start_time st"
  "candidate_data (fst (snd (process_response e st a))) = candidate_data st"
  "prefix (weaknesses (candidate_profile st))
          (weaknesses (candidate_profile (fst (snd (process_response e st a)))))"
  "prefix (areas_needing_focus (candidate_profile st))
          (areas_needing_focus (candidate_profile (fst (snd (process_response e st a)))))"
  unfolding process_response_def Let_def
  by (simp_all add: update_frame update_lists_grow update_chat decide_frame case_prod_beta
        split: option.splits agent_result.splits)

subsection \<open>Starting\<close>

lemma session_setup_frame:
  "interview_state (session_setup e a st) = interview_state st"
  "current_questions (session_setup e a st) = current_questions st"
  "current_question_index (session_setup e a st) = current_question_index st"
  "chat_history (session_setup e a st) = chat_history st"
  "assessment_results (session_setup e a st) = assessment_results st"
  "excel_skills_tested (session_setup e a st) = excel_skills_tested st"
  "excel_performance_by_skill (session_setup e a st) = excel_performance_by_skill st"
  "trajectory_decisions (session_setup e a st) = trajectory_decisions st"
  "end_time (session_setup e a st) = end_time st"
  by (simp_all add: session_setup_def Let_def)

lemma session_setup_assigned:
  "candidate_data (session_setup e a st) =
     Some \<lparr>cd_name = sa_candidate_name a, role_type = sa_role_type a,
           difficulty_level = sa_difficulty_level a,
           excel_focus_areas = (case sa_excel_focus_areas a of None \<Rightarrow> [] | Some fs \<Rightarrow> fs),
           max_questions = sa_max_questions a,
           include_datasets = sa_include_datasets a\<rparr>"
  "start_time (session_setup e a st) = Some (clock e)"
  "interview_metadata (session_setup e a st) =
     \<lparr>md_start = Some
        \<lparr>md_candidate = sa_candidate_name a, md_role_context = sa_role_type a,
         md_start_time = clock e, md_max_questions = sa_max_questions a,
         md_data_generation_enabled = sa_include_datasets a\<rparr>,
      md_end = None\<rparr>"
  "candidate_profile (session_setup e a st) =
     (candidate_profile st)
       \<lparr>role_context := Some (sa_role_type a),
        initial_difficulty := Some (sa_difficulty_level a),
        focus_areas := Some (case sa_excel_focus_areas a of None \<Rightarrow> [] | Some fs \<Rightarrow> fs),
        preferred_difficulty := ''Medium''\<rparr>"
  by (simp_all add: session_setup_def Let_def)


lemma start_frame:
  "candidate_profile (fst (snd (start_interview e a st))) = candidate_profile (session_setup e a st)"
  "start_time (fst (snd (start_interview e a st))) = Some (clock e)"
  "candidate_data (fst (snd (start_interview e a st))) \<noteq> None"
  "current_question_index st = 0 \<Longrightarrow> current_question_index (fst (snd (start_interview e a st))) = 0"
  "interview_state (fst (snd (start_interview e a st))) = InProgress
   \<or> interview_state (fst (snd (start_interview e a st))) = interview_state st"
  "assessment_results (fst (snd (start_interview e a st))) = assessment_results st"
  unfolding start_interview_def Let_def
  by (simp_all add: session_setup_frame session_setup_assigned case_prod_beta
        split: sum.splits option.splits list.splits)

lemma start_generation_failed:
  assumes "fst (generate_next_questions e (session_setup e a st)) = Inl err"
  shows "start_interview e a st =
           (Failure (FailedToGenerateInitialQuestions err), session_setup e a st,
            snd (generate_next_questions e (session_setup e a st)))"
  using assms
  by (cases "generate_next_questions e (session_setup e a st)")
     (simp add: start_interview_def Let_def)

lemma start_welcome_failed:
  assumes "fst (generate_next_questions e (session_setup e a st)) = Inr gb"
      and "welcome_reply e = None"
  shows "start_interview e a st =
           (Failure FailedToStartInterview,
            (session_setup e a st)\<lparr>current_questions := gb_questions gb\<rparr>,
            [QueCraftGenerate, InterviewerWelcome])"
  using generate_ok_calls [OF assms(1)] assms(2)
  by (simp add: start_interview_def Let_def)

lemma start_no_questions:
  assumes "fst (generate_next_questions e (session_setup e a st)) = Inr gb"
      and "gb_questions gb = []"
      and "welcome_reply e = Some w"
  shows "start_interview e a st =
           (Failure (Raised IndexError), (session_setup e a st)\<lparr>current_questions := []\<rparr>,
            [QueCraftGenerate, InterviewerWelcome])"
  using generate_ok_calls [OF assms(1)] assms(2,3)
  by (simp add: start_interview_def Let_def)

lemma start_batch:
  assumes "fst (generate_next_questions e (session_setup e a st)) = Inr gb"
  shows "current_questions (fst (snd (start_interview e a st))) = gb_questions gb"
  using generate_ok_calls [OF assms]
  by (simp add: start_interview_def Let_def split: option.splits list.splits)

subsection \<open>Sessions\<close>

lemma queue_ok_init: "queue_ok init_orchestrator"
  by (simp add: queue_ok_def init_orchestrator_def)

lemma queue_ok_respond: "queue_ok st \<Longrightarrow> queue_ok (step (Respond e a) st)"
proof (cases "interview_state st = InProgress")
  case True
  assume "queue_ok st"
  then have "current_question_index st \<le> length (current_questions st)" by (simp add: queue_ok_def)
  from process_frame(2) [OF this, of e a] process_frame(3) [OF True, of e a]
  show ?thesis by (simp add: queue_ok_def)
next
  case False
  assume "queue_ok st"
  with process_not_in_progress [OF False, of e a] show ?thesis by simp
qed

lemma queue_ok_start:
  assumes "queue_ok st" and "interview_state st = NotStarted"
  shows "queue_ok (step (Start e a) st)"
proof -
  from assms have "current_question_index st = 0" by (simp add: queue_ok_def)
  from start_frame(4) [OF this, of e a] show ?thesis by (simp add: queue_ok_def)
qed

lemma queue_ok_run:
  "queue_ok st \<Longrightarrow> follows_protocol ops st \<Longrightarrow> queue_ok (run ops st)"
proof (induction ops arbitrary: st)
  case Nil
  then show ?case by simp
next
  case (Cons x xs)
  show ?case
  proof (cases x)
    case (Start e a)
    with Cons.prems have ns: "interview_state st = NotStarted"
      and fp: "follows_protocol xs (step x st)" by simp_all
    from queue_ok_start [OF Cons.prems(1) ns, of e a] Start have "queue_ok (step x st)" by simp
    from Cons.IH [OF this fp] show ?thesis by simp
  next
    case (Respond e answer)
    with Cons.prems have fp: "follows_protocol xs (step x st)" by simp
    from queue_ok_respond [OF Cons.prems(1), of e answer] Respond have "queue_ok (step x st)" by simp
    from Cons.IH [OF this fp] show ?thesis by simp
  qed
qed

lemma session_data_ok_step: "session_data_ok st \<Longrightarrow> session_data_ok (step x st)"
proof (cases x)
  case (Start e a)
  then show ?thesis using start_frame(2,3) [of e a st] by (simp add: session_data_ok_def)
next
  case (Respond e answer)
  assume ok: "session_data_ok st"
  show ?thesis
  proof (cases "interview_state st = InProgress")
    case True
    with ok process_frame(4,5) [of e st answer] Respond show ?thesis
      by (simp add: session_data_ok_def)
  next
    case False
    with ok process_not_in_progress [OF False, of e answer] Respond show ?thesis by simp
  qed
qed

lemma session_data_ok_run: "session_data_ok st \<Longrightarrow> session_data_ok (run ops st)"
  by (induction ops arbitrary: st) (simp_all add: session_data_ok_step)

lemma in_progress_start_time:
  assumes "interview_state (run ops init_orchestrator) = InProgress"
  shows "\<exists>t0. start_time (run ops init_orchestrator) = Some t0"
proof -
  have "session_data_ok init_orchestrator"
    by (simp add: session_data_ok_def init_orchestrator_def)
  from session_data_ok_run [OF this, of ops] assms show ?thesis
    by (auto simp: session_data_ok_def)
qed

lemma profile_lists_step:
  "prefix (weaknesses (candidate_profile st)) (weaknesses (candidate_profile (step x st)))
   \<and> prefix (areas_needing_focus (candidate_profile st)) (areas_needing_focus (candidate_profile (step x st)))"
proof (cases x)
  case (Start e a)
  then show ?thesis by (simp add: start_frame(1) session_setup_assigned)
next
  case (Respond e answer)
  then show ?thesis using process_frame(6,7) [of st e answer] by simp
qed

lemma profile_lists_run:
  "prefix (weaknesses (candidate_profile st)) (weaknesses (candidate_profile (run ops st)))
   \<and> prefix (areas_needing_focus (candidate_profile st)) (areas_needing_focus (candidate_profile (run ops st)))"
proof (induction ops arbitrary: st)
  case Nil
  then show ?case by simp
next
  case (Cons x xs)
  from profile_lists_step [of st x] Cons.IH [of "step x st"]
  show ?case by (auto intro: prefix_order.trans)
qed

lemma profile_lists_update_all:
  "prefix (weaknesses (candidate_profile st)) (weaknesses (candidate_profile (update_all us st)))
   \<and> prefix (areas_needing_focus (candidate_profile st)) (areas_needing_focus (candidate_profile (update_all us st)))"
proof (induction us st rule: update_all.induct)
  case (1 st)
  then show ?case by simp
next
  case (2 q ev a t us st)
  from update_lists_grow [of st q ev a t] 2 show ?case
    by (auto intro: prefix_order.trans)
qed

lemma completed_run:
  "interview_state st = Completed \<Longrightarrow> follows_protocol ops st \<Longrightarrow> run ops st = st"
proof (induction ops arbitrary: st)
  case Nil
  then show ?case by simp
next
  case (Cons x xs)
  show ?case
  proof (cases x)
    case (Start e a)
    with Cons.prems show ?thesis by simp
  next
    case (Respond e answer)
    from Cons.prems(1) have "fst (snd (process_response e st answer)) = st"
      by (simp add: process_not_in_progress)
    with Respond Cons show ?thesis by simp
  qed
qed

section \<open>Facts about the example values\<close>






lemma no_records_dump [simp]: "\<not> dumps_raises (last_n 3 [])"
  by (simp add: dumps_raises_def last_n_def)



lemma started_profile:
  "candidate_profile started_state =
     (candidate_profile init_orchestrator)
       \<lparr>role_context := Some ''Business Analyst'',
        initial_difficulty := Some ''Mixed Assessment'',
        focus_areas := Some [],
        preferred_difficulty := ''Medium''\<rparr>"
  by (simp add: started_state_def start_frame(1) session_setup_assigned example_args_def)

lemma started_data: "candidate_data started_state \<noteq> None"
  using start_frame(3) [of helpful_env example_args init_orchestrator]
  by (simp add: started_state_def)

lemma started_as_run: "started_state = run [Start helpful_env example_args] init_orchestrator"
  by (simp add: started_state_def)

section \<open>The candidate profile\<close>

text \<open>
  C7. The weaknesses and the areas needing focus only grow: after any sequence of
  profile updates, and after any sequence of calls of the orchestrator, each list
  begins with the list it was before; nothing is removed or reordered, whatever the
  later scores are.
\<close>

theorem weaknesses_only_grow:
  "prefix (weaknesses (candidate_profile st))
          (weaknesses (candidate_profile (update_all us st)))
   \<and> prefix (areas_needing_focus (candidate_profile st))
            (areas_needing_focus (candidate_profile (update_all us st)))
   \<and> prefix (weaknesses (candidate_profile st))
            (weaknesses (candidate_profile (run ops st)))
   \<and> prefix (areas_needing_focus (candidate_profile st))
            (areas_needing_focus (candidate_profile (run ops st)))"
  using profile_lists_update_all [of st us] profile_lists_run [of st ops]
  by simp

text \<open>
  An instance: Pivot Tables is flagged, then scores 95 three times; it is still the
  first weakness and the first area needing focus.
\<close>

theorem weaknesses_only_grow_witness:
  "prefix [''Pivot Tables'']
     (weaknesses (candidate_profile
        (update_all
           [(example_question ''q1'' ''Pivot Tables'', example_evaluation (Some (IntScore 95)) False, ''a'', 1),
            (example_question ''q2'' ''Pivot Tables'', example_evaluation (Some (IntScore 95)) False, ''b'', 2),
            (example_question ''q3'' ''Pivot Tables'', example_evaluation (Some (IntScore 95)) False, ''c'', 3)]
           flagged_state)))
   \<and> strengths (candidate_profile
        (update_all
           [(example_question ''q1'' ''Pivot Tables'', example_evaluation (Some (IntScore 95)) False, ''a'', 1),
            (example_question ''q2'' ''Pivot Tables'', example_evaluation (Some (IntScore 95)) False, ''b'', 2),
            (example_question ''q3'' ''Pivot Tables'', example_evaluation (Some (IntScore 95)) False, ''c'', 3)]
           flagged_state)) = [''Pivot Tables'']"
proof -
  have w: "weaknesses (candidate_profile flagged_state) = [''Pivot Tables'']"
    by (simp add: flagged_state_def init_orchestrator_def)
  have sc: "score_of (example_evaluation (Some (IntScore 95)) False) = IntScore 95"
    by (simp add: score_of_def example_evaluation_def)
  have s: "strengths (candidate_profile
        (update_all
           [(example_question ''q1'' ''Pivot Tables'', example_evaluation (Some (IntScore 95)) False, ''a'', 1),
            (example_question ''q2'' ''Pivot Tables'', example_evaluation (Some (IntScore 95)) False, ''b'', 2),
            (example_question ''q3'' ''Pivot Tables'', example_evaluation (Some (IntScore 95)) False, ''c'', 3)]
           flagged_state)) = [''Pivot Tables'']"
    by (simp add: update_lists(1) [OF sc] flagged_state_def init_orchestrator_def
          example_question_def skill_of_def)
  from weaknesses_only_grow
         [of flagged_state
             "[(example_question ''q1'' ''Pivot Tables'', example_evaluation (Some (IntScore 95)) False, ''a'', 1),
               (example_question ''q2'' ''Pivot Tables'', example_evaluation (Some (IntScore 95)) False, ''b'', 2),
               (example_question ''q3'' ''Pivot Tables'', example_evaluation (Some (IntScore 95)) False, ''c'', 3)]"]
       w s
  show ?thesis by simp
qed

section \<open>Processing a response\<close>




end
